theory Spec2Isabelle
  imports Complex_Main "HOL-Library.AList"
begin

section \<open>Python values used by the Bay Wheels client\<close>

text \<open>
  A Python \<open>str\<close> is a sequence of Unicode code points, a \<open>bytes\<close> object a sequence of
  8-bit bytes (HOL's \<open>char\<close> is exactly one byte).  String literals of the source are
  written \<open>lit ''...''\<close>.
\<close>

type_synonym str = "nat list"
type_synonym bytes = "char list"

definition lit :: "string \<Rightarrow> str" where
  "lit s = map of_char s"

text \<open>
  The values \<open>json.loads\<close> produces.  A Python float is a finite number, an infinity or
  NaN (\<open>json.loads\<close> accepts \<open>NaN\<close> and \<open>Infinity\<close>); a dict is kept as an association
  list that is read with \<open>map_of\<close>.
\<close>

datatype pyfloat = Finite real | PosInfinity | NegInfinity | NaN

datatype jvalue =
    JNull
  | JBool bool
  | JInt int
  | JFloat pyfloat
  | JStr str
  | JArr "jvalue list"
  | JObj "(str \<times> jvalue) list"

text \<open>
  Exceptions, each with the text \<open>str(e)\<close> gives.  The first three are the package's own
  (\<open>exceptions.py\<close>); \<open>JSONDecodeError\<close> is a subclass of \<open>ValueError\<close>, and \<open>ValueError\<close>
  stands for it and its other subclasses (\<open>UnicodeDecodeError\<close> among them);
  \<open>OtherException\<close> is any other subclass of \<open>Exception\<close>.
\<close>

datatype error =
    AuthenticationError str
  | BayWheelsError str
  | ReservationError str
  | JSONDecodeError str
  | ValueError str
  | TypeError str
  | AttributeError str
  | KeyError str
  | OtherException str

fun message :: "error \<Rightarrow> str" where
  "message (AuthenticationError m) = m"
| "message (BayWheelsError m) = m"
| "message (ReservationError m) = m"
| "message (JSONDecodeError m) = m"
| "message (ValueError m) = m"
| "message (TypeError m) = m"
| "message (AttributeError m) = m"
| "message (KeyError m) = m"
| "message (OtherException m) = m"

text \<open>What \<open>except (json.JSONDecodeError, ValueError)\<close> catches.\<close>

fun is_ValueError :: "error \<Rightarrow> bool" where
  "is_ValueError (JSONDecodeError m) = True"
| "is_ValueError (ValueError m) = True"
| "is_ValueError e = False"

text \<open>What \<open>except json.JSONDecodeError\<close> catches.\<close>

fun is_JSONDecodeError :: "error \<Rightarrow> bool" where
  "is_JSONDecodeError (JSONDecodeError m) = True"
| "is_JSONDecodeError e = False"

subsection \<open>Built-in operations on these values\<close>

fun type_name :: "jvalue \<Rightarrow> str" where
  "type_name JNull = lit ''NoneType''"
| "type_name (JBool b) = lit ''bool''"
| "type_name (JInt i) = lit ''int''"
| "type_name (JFloat f) = lit ''float''"
| "type_name (JStr s) = lit ''str''"
| "type_name (JArr xs) = lit ''list''"
| "type_name (JObj d) = lit ''dict''"

text \<open>\<open>str(n)\<close> for an integer: its decimal digits, with a minus sign when negative.\<close>

function str_nat :: "nat \<Rightarrow> str" where
  "str_nat n = (if n < 10 then [48 + n] else str_nat (n div 10) @ [48 + n mod 10])"
  by pat_completeness auto
termination
  by (relation "measure id") auto

declare str_nat.simps [simp del]

definition str_int :: "int \<Rightarrow> str" where
  "str_int i = (if i < 0 then 45 # str_nat (nat (- i)) else str_nat (nat i))"

text \<open>
  \<open>str(v)\<close>: a \<open>str\<close> is returned as it is, \<open>None\<close>, \<open>bool\<close> and \<open>int\<close> print as below;
  for floats, lists and dicts \<open>str\<close> is \<open>repr\<close>, which is taken as a parameter.
\<close>

fun py_str :: "(jvalue \<Rightarrow> str) \<Rightarrow> jvalue \<Rightarrow> str" where
  "py_str repr (JStr s) = s"
| "py_str repr JNull = lit ''None''"
| "py_str repr (JBool b) = (if b then lit ''True'' else lit ''False'')"
| "py_str repr (JInt i) = str_int i"
| "py_str repr v = repr v"

text \<open>\<open>sub in s\<close> on two strings.\<close>

fun str_contains :: "str \<Rightarrow> str \<Rightarrow> bool" where
  "str_contains sub [] = (sub = [])"
| "str_contains sub (c # cs) = (take (length sub) (c # cs) = sub \<or> str_contains sub cs)"

definition dict_get :: "(str \<times> jvalue) list \<Rightarrow> str \<Rightarrow> jvalue \<Rightarrow> jvalue" where
  "dict_get d k dflt = (case map_of d k of Some v \<Rightarrow> v | None \<Rightarrow> dflt)"

definition no_attribute_get :: "jvalue \<Rightarrow> error" where
  "no_attribute_get v =
     AttributeError (lit [CHR 0x27] @ type_name v @ lit [CHR 0x27]
       @ lit '' object has no attribute '' @ lit [CHR 0x27] @ lit ''get'' @ lit [CHR 0x27])"

text \<open>\<open>x.get(k, dflt)\<close>: only a dict has the method.\<close>

fun py_get :: "jvalue \<Rightarrow> str \<Rightarrow> jvalue \<Rightarrow> error + jvalue" where
  "py_get (JObj d) k dflt = Inr (dict_get d k dflt)"
| "py_get v k dflt = Inl (no_attribute_get v)"

text \<open>\<open>k in x\<close> for a string \<open>k\<close>: key of a dict, element of a list, substring of a string.\<close>

fun py_contains :: "str \<Rightarrow> jvalue \<Rightarrow> error + bool" where
  "py_contains k (JObj d) = Inr (map_of d k \<noteq> None)"
| "py_contains k (JArr xs) = Inr (JStr k \<in> set xs)"
| "py_contains k (JStr s) = Inr (str_contains k s)"
| "py_contains k v =
     Inl (TypeError (lit ''argument of type '' @ lit [CHR 0x27] @ type_name v @ lit [CHR 0x27]
       @ lit '' is not iterable''))"

text \<open>\<open>x[k]\<close> for a string \<open>k\<close> (the texts of the \<open>TypeError\<close>s are those of CPython 3.12).\<close>

fun py_getitem :: "jvalue \<Rightarrow> str \<Rightarrow> error + jvalue" where
  "py_getitem (JObj d) k = (case map_of d k of Some v \<Rightarrow> Inr v | None \<Rightarrow> Inl (KeyError k))"
| "py_getitem (JStr s) k = Inl (TypeError (lit ''string indices must be integers, not '' @ lit [CHR 0x27] @ lit ''str'' @ lit [CHR 0x27]))"
| "py_getitem (JArr xs) k = Inl (TypeError (lit ''list indices must be integers or slices, not str''))"
| "py_getitem v k =
     Inl (TypeError (lit [CHR 0x27] @ type_name v @ lit [CHR 0x27] @ lit '' object is not subscriptable''))"

text \<open>\<open>for x in v\<close>: the elements of a list, the keys of a dict, the characters of a string.\<close>

fun py_iter :: "jvalue \<Rightarrow> error + jvalue list" where
  "py_iter (JArr xs) = Inr xs"
| "py_iter (JObj d) = Inr (map (\<lambda>kv. JStr (fst kv)) d)"
| "py_iter (JStr s) = Inr (map (\<lambda>c. JStr [c]) s)"
| "py_iter v =
     Inl (TypeError (lit [CHR 0x27] @ type_name v @ lit [CHR 0x27] @ lit '' object is not iterable''))"

text \<open>\<open>v == 1\<close>: Python compares numbers by value, and \<open>True == 1\<close>.\<close>

fun py_eq_1 :: "jvalue \<Rightarrow> bool" where
  "py_eq_1 (JInt i) = (i = 1)"
| "py_eq_1 (JBool b) = b"
| "py_eq_1 (JFloat (Finite r)) = (r = 1)"
| "py_eq_1 v = False"

section \<open>The transport and the client's state\<close>

record request =
  url :: str
  json_body :: jvalue
  headers :: "(str \<times> str) list"

text \<open>
  A response of the HTTP library: its status, its raw body, and what its \<open>json()\<close> method
  gives, a value or the exception it raises.
\<close>

record response =
  status_code :: int
  content :: bytes
  json :: "error + jvalue"

text \<open>
  What the client takes from outside \<open>client.py\<close>: the HTTP exchange
  (\<open>AsyncSession.post\<close>, which answers or raises), the headers of
  \<open>AuthManager._get_common_headers\<close>, \<open>json.loads\<close> on a string, \<open>repr\<close>,
  \<open>Station.from_geojson_feature\<close> (\<open>models.py\<close>), the exception \<open>Reservation\<close>
  (\<open>models.py\<close>) raises when it is given a status that is not a string, and the Unicode
  tables of the \<open>re\<close> module beyond ASCII: the decimal digits, and the other alphanumeric
  characters.
\<close>

record 'st env =
  transport :: "request \<Rightarrow> error + response"
  common_headers :: "(str \<times> str) list"
  json_loads :: "str \<Rightarrow> error + jvalue"
  py_repr :: "jvalue \<Rightarrow> str"
  from_geojson_feature :: "jvalue \<Rightarrow> error + 'st"
  reservation_refused :: "jvalue \<Rightarrow> error"
  unicode_decimal :: "nat \<Rightarrow> bool"
  unicode_alnum :: "nat \<Rightarrow> bool"

text \<open>
  Modelled from the spec: \<open>TokenInfo\<close> (\<open>models.py\<close>) is missing from the sources.  It
  holds the access token and, optionally, the time it was obtained.
\<close>

record token_info =
  ti_access_token :: str
  obtained_at :: "nat option"

text \<open>
  The state of the client.  Modelled from the spec: the \<open>AuthManager\<close> (\<open>auth.py\<close>) is
  missing from the sources; of it the state keeps the token it holds in memory, read by
  \<open>self._auth.access_token\<close>, and the token file it persists to.  \<open>sent\<close> lists the
  requests the client has posted through its session so far.
\<close>

record client =
  access_token :: "str option"
  token_file :: "token_info option"
  sent :: "request list"

definition BASE_URL :: str where
  "BASE_URL = lit ''https://api.lyft.com''"

definition is_authenticated :: "client \<Rightarrow> bool" where
  "is_authenticated c = (access_token c \<noteq> None)"

definition get_headers :: "'st env \<Rightarrow> client \<Rightarrow> bool \<Rightarrow> (str \<times> str) list" where
  "get_headers E c authenticated =
     (let headers = AList.update (lit ''content-type'') (lit ''application/json'') (common_headers E)
      in case access_token c of
           None \<Rightarrow> headers
         | Some t \<Rightarrow>
             if authenticated \<and> t \<noteq> []
             then AList.update (lit ''authorization'') (lit ''Bearer '' @ t) headers
             else headers)"

definition post :: "'st env \<Rightarrow> request \<Rightarrow> client \<Rightarrow> (error + response) \<times> client" where
  "post E req c = (transport E req, c\<lparr>sent := sent c @ [req]\<rparr>)"

section \<open>Station inventory\<close>

text \<open>
  \<open>json.loads(v)\<close> on a value taken from the payload: a string is decoded, anything else
  is a \<open>TypeError\<close>.
\<close>

definition py_json_loads :: "'st env \<Rightarrow> jvalue \<Rightarrow> error + jvalue" where
  "py_json_loads E v =
     (case v of
        JStr s \<Rightarrow> json_loads E s
      | _ \<Rightarrow> Inl (TypeError (lit ''the JSON object must be str, bytes or bytearray, not ''
                 @ type_name v)))"

text \<open>The body of the \<open>try\<close> of \<open>list_stations\<close>, and the \<open>try\<close> with its handler.\<close>

definition inventory_try :: "'st env \<Rightarrow> response \<Rightarrow> error + jvalue" where
  "inventory_try E r =
     (case json r of
        Inl e \<Rightarrow> Inl e
      | Inr outer_data \<Rightarrow>
          (case py_contains (lit ''map_inventory_json'') outer_data of
             Inl e \<Rightarrow> Inl e
           | Inr True \<Rightarrow>
               (case py_getitem outer_data (lit ''map_inventory_json'') of
                  Inl e \<Rightarrow> Inl e
                | Inr v \<Rightarrow> py_json_loads E v)
           | Inr False \<Rightarrow> Inr outer_data))"

definition decode_inventory :: "'st env \<Rightarrow> response \<Rightarrow> error + jvalue" where
  "decode_inventory E r =
     (case inventory_try E r of
        Inl e \<Rightarrow>
          if is_ValueError e
          then Inl (BayWheelsError (lit ''Failed to parse station data: '' @ message e))
          else Inl e
      | Inr data \<Rightarrow> Inr data)"

text \<open>The loop over the features, with the list \<open>stations\<close> it appends to.\<close>

fun collect_stations :: "'st env \<Rightarrow> jvalue list \<Rightarrow> 'st list \<Rightarrow> error + 'st list" where
  "collect_stations E [] stations = Inr stations"
| "collect_stations E (feature # rest) stations =
     (case py_get feature (lit ''properties'') (JObj []) of
        Inl e \<Rightarrow> Inl e
      | Inr props \<Rightarrow>
          (case py_get props (lit ''map_item_type'') JNull of
             Inl e \<Rightarrow> Inl e
           | Inr t \<Rightarrow>
               if py_eq_1 t
               then (case from_geojson_feature E feature of
                       Inl e \<Rightarrow> Inl e
                     | Inr s \<Rightarrow> collect_stations E rest (stations @ [s]))
               else collect_stations E rest stations))"

definition parse_stations :: "'st env \<Rightarrow> response \<Rightarrow> error + 'st list" where
  "parse_stations E r =
     (case decode_inventory E r of
        Inl e \<Rightarrow> Inl e
      | Inr data \<Rightarrow>
          (case py_get data (lit ''type'') JNull of
             Inl e \<Rightarrow> Inl e
           | Inr t \<Rightarrow>
               if t \<noteq> JStr (lit ''FeatureCollection'')
               then Inl (BayWheelsError (lit ''Unexpected response format: '' @ py_str (py_repr E) t))
               else (case py_get data (lit ''features'') (JArr []) of
                       Inl e \<Rightarrow> Inl e
                     | Inr fs \<Rightarrow>
                         (case py_iter fs of
                            Inl e \<Rightarrow> Inl e
                          | Inr features \<Rightarrow> collect_stations E features []))))"

definition stations_of_response :: "'st env \<Rightarrow> response \<Rightarrow> error + 'st list" where
  "stations_of_response E r =
     (if status_code r = 403
      then Inl (AuthenticationError (lit ''Access denied - token may be expired''))
      else if status_code r \<noteq> 200
      then Inl (BayWheelsError (lit ''Failed to get stations: '' @ str_int (status_code r)))
      else parse_stations E r)"

text \<open>The request \<open>list_stations\<close> posts.\<close>

definition inventory_request :: "'st env \<Rightarrow> client \<Rightarrow> request" where
  "inventory_request E c =
     \<lparr>url = BASE_URL @ lit ''/v1/lbsbff/map/inventory'',
      json_body = JObj [],
      headers = get_headers E c True\<rparr>"

definition list_stations :: "'st env \<Rightarrow> client \<Rightarrow> (error + 'st list) \<times> client" where
  "list_stations E c =
     (if \<not> is_authenticated c
      then (Inl (AuthenticationError (lit ''Must be authenticated to list stations'')), c)
      else
        (case post E (inventory_request E c) c of
           (Inl e, c') \<Rightarrow> (Inl e, c')
         | (Inr r, c') \<Rightarrow> (stations_of_response E r, c')))"

section \<open>Reservations\<close>

subsection \<open>Lenient UTF-8 decoding\<close>

text \<open>
  \<open>content.decode("utf-8", errors="ignore")\<close>: a well-formed UTF-8 sequence gives its code
  point; a byte that starts none is dropped and decoding goes on with the next byte.
\<close>

definition is_cont :: "nat \<Rightarrow> bool" where
  "is_cont b = (0x80 \<le> b \<and> b \<le> 0xBF)"

definition second_of_3 :: "nat \<Rightarrow> nat \<Rightarrow> bool" where
  "second_of_3 b0 b1 =
     (if b0 = 0xE0 then 0xA0 \<le> b1 \<and> b1 \<le> 0xBF
      else if b0 = 0xED then 0x80 \<le> b1 \<and> b1 \<le> 0x9F
      else is_cont b1)"

definition second_of_4 :: "nat \<Rightarrow> nat \<Rightarrow> bool" where
  "second_of_4 b0 b1 =
     (if b0 = 0xF0 then 0x90 \<le> b1 \<and> b1 \<le> 0xBF
      else if b0 = 0xF4 then 0x80 \<le> b1 \<and> b1 \<le> 0x8F
      else is_cont b1)"

fun utf8_ignore :: "nat list \<Rightarrow> str" where
  "utf8_ignore [] = []"
| "utf8_ignore (b0 # bs) =
     (if b0 < 0x80 then b0 # utf8_ignore bs
      else if 0xC2 \<le> b0 \<and> b0 \<le> 0xDF then
        (case bs of
           b1 # r1 \<Rightarrow>
             if is_cont b1
             then ((b0 - 0xC0) * 64 + (b1 - 0x80)) # utf8_ignore r1
             else utf8_ignore bs
         | _ \<Rightarrow> utf8_ignore bs)
      else if 0xE0 \<le> b0 \<and> b0 \<le> 0xEF then
        (case bs of
           b1 # b2 # r2 \<Rightarrow>
             if second_of_3 b0 b1 \<and> is_cont b2
             then ((b0 - 0xE0) * 4096 + (b1 - 0x80) * 64 + (b2 - 0x80)) # utf8_ignore r2
             else utf8_ignore bs
         | _ \<Rightarrow> utf8_ignore bs)
      else if 0xF0 \<le> b0 \<and> b0 \<le> 0xF4 then
        (case bs of
           b1 # b2 # b3 # r3 \<Rightarrow>
             if second_of_4 b0 b1 \<and> is_cont b2 \<and> is_cont b3
             then ((b0 - 0xF0) * 262144 + (b1 - 0x80) * 4096 + (b2 - 0x80) * 64 + (b3 - 0x80))
                    # utf8_ignore r3
             else utf8_ignore bs
         | _ \<Rightarrow> utf8_ignore bs)
      else utf8_ignore bs)"

definition decode_utf8_ignore :: "bytes \<Rightarrow> str" where
  "decode_utf8_ignore raw = utf8_ignore (map of_char raw)"

subsection \<open>The pattern \<open>\<bsol>b(\<bsol>d{15,20})\<bsol>b\<close>\<close>

text \<open>
  On a \<open>str\<close> the \<open>re\<close> module takes \<open>\<bsol>d\<close> as a Unicode decimal digit and \<open>\<bsol>w\<close> as an
  alphanumeric character or the underscore; below 128 these are the ASCII classes, above
  they come from the tables of the environment.
\<close>

definition is_digit :: "'st env \<Rightarrow> nat \<Rightarrow> bool" where
  "is_digit E c = (if c < 128 then 48 \<le> c \<and> c \<le> 57 else unicode_decimal E c)"

definition is_word :: "'st env \<Rightarrow> nat \<Rightarrow> bool" where
  "is_word E c =
     (if c < 128
      then (48 \<le> c \<and> c \<le> 57) \<or> (65 \<le> c \<and> c \<le> 90) \<or> (97 \<le> c \<and> c \<le> 122) \<or> c = 95
      else unicode_decimal E c \<or> unicode_alnum E c)"

text \<open>\<open>\<bsol>b\<close> between the character before a position and the one at it (\<open>None\<close>: no character).\<close>

definition word_at :: "'st env \<Rightarrow> nat option \<Rightarrow> bool" where
  "word_at E x = (case x of None \<Rightarrow> False | Some c \<Rightarrow> is_word E c)"

definition at_boundary :: "'st env \<Rightarrow> nat option \<Rightarrow> nat option \<Rightarrow> bool" where
  "at_boundary E before after = (word_at E before \<noteq> word_at E after)"

definition nth_opt :: "'a list \<Rightarrow> nat \<Rightarrow> 'a option" where
  "nth_opt xs n = (if n < length xs then Some (xs ! n) else None)"

text \<open>
  The greedy \<open>\<bsol>d{15,20}\<close> has taken \<open>n\<close> digits of \<open>xs\<close>; the closing \<open>\<bsol>b\<close> is tried there, and
  after a failure with one digit fewer, down to 15.
\<close>

fun backtrack :: "'st env \<Rightarrow> str \<Rightarrow> nat \<Rightarrow> str option" where
  "backtrack E xs n =
     (if n < 15 then None
      else if at_boundary E (nth_opt xs (n - 1)) (nth_opt xs n) then Some (take n xs)
      else backtrack E xs (n - 1))"

declare backtrack.simps [simp del]

text \<open>A match that starts at the position before \<open>xs\<close>, the character before it being \<open>before\<close>.\<close>

definition match_at :: "'st env \<Rightarrow> nat option \<Rightarrow> str \<Rightarrow> str option" where
  "match_at E before xs =
     (if at_boundary E before (nth_opt xs 0)
      then backtrack E xs (length (takeWhile (is_digit E) (take 20 xs)))
      else None)"

text \<open>\<open>re.search\<close> tries the start positions from left to right; the result is group 1.\<close>

fun search_from :: "'st env \<Rightarrow> nat option \<Rightarrow> str \<Rightarrow> str option" where
  "search_from E before [] = match_at E before []"
| "search_from E before (c # cs) =
     (case match_at E before (c # cs) of
        Some m \<Rightarrow> Some m
      | None \<Rightarrow> search_from E (Some c) cs)"

definition re_search :: "'st env \<Rightarrow> str \<Rightarrow> str option" where
  "re_search E text = search_from E None text"

subsection \<open>\<open>create_reservation\<close> and \<open>cancel_reservation\<close>\<close>

text \<open>
  Modelled from the spec: \<open>Reservation\<close> (\<open>models.py\<close>) is missing from the sources.  It
  is a record of three strings, \<open>ride_id\<close>, \<open>status\<close> and \<open>station_id\<close>.  The client
  passes it strings for \<open>ride_id\<close> and \<open>station_id\<close>, and for \<open>status\<close> whatever the
  payload holds under that key: the constructor accepts a string and raises on any other
  value.
\<close>

record reservation =
  ride_id :: str
  status :: str
  station_id :: str

definition make_reservation :: "'st env \<Rightarrow> str \<Rightarrow> jvalue \<Rightarrow> str \<Rightarrow> error + reservation" where
  "make_reservation E rid st sid =
     (case st of
        JStr s \<Rightarrow> Inr \<lparr>ride_id = rid, status = s, station_id = sid\<rparr>
      | _ \<Rightarrow> Inl (reservation_refused E st))"

text \<open>The inner \<open>try\<close>: \<open>ride_id\<close> (\<open>None\<close> or a string) and \<open>status\<close>.\<close>

definition reservation_fields :: "'st env \<Rightarrow> response \<Rightarrow> error + (str option \<times> jvalue)" where
  "reservation_fields E r =
     (case json r of
        Inr data \<Rightarrow>
          (case py_get data (lit ''ride_id'') (JStr []) of
             Inl e \<Rightarrow> Inl e
           | Inr v \<Rightarrow>
               (case py_get data (lit ''status'') (JStr (lit ''reserved'')) of
                  Inl e \<Rightarrow> Inl e
                | Inr s \<Rightarrow> Inr (Some (py_str (py_repr E) v), s)))
      | Inl e \<Rightarrow>
          if is_JSONDecodeError e
          then Inr (re_search E (decode_utf8_ignore (content r)), JStr (lit ''reserved''))
          else Inl e)"

text \<open>The body of the outer \<open>try\<close>, and the \<open>try\<close> with its handler \<open>except Exception\<close>.\<close>

definition reservation_try :: "'st env \<Rightarrow> response \<Rightarrow> str \<Rightarrow> error + reservation" where
  "reservation_try E r sid =
     (case reservation_fields E r of
        Inl e \<Rightarrow> Inl e
      | Inr (rid, st) \<Rightarrow>
          (case rid of
             None \<Rightarrow> Inl (ReservationError (lit ''Could not parse reservation response''))
           | Some i \<Rightarrow>
               if i = [] then Inl (ReservationError (lit ''Could not parse reservation response''))
               else make_reservation E i st sid))"

definition parse_reservation :: "'st env \<Rightarrow> response \<Rightarrow> str \<Rightarrow> error + reservation" where
  "parse_reservation E r sid =
     (case reservation_try E r sid of
        Inl e \<Rightarrow> Inl (ReservationError (lit ''Failed to parse reservation response: '' @ message e))
      | Inr res \<Rightarrow> Inr res)"

definition reservation_of_response :: "'st env \<Rightarrow> response \<Rightarrow> str \<Rightarrow> error + reservation" where
  "reservation_of_response E r sid =
     (if status_code r = 403
      then Inl (AuthenticationError (lit ''Access denied - token may be expired''))
      else if status_code r \<noteq> 200
      then Inl (ReservationError (lit ''Failed to create reservation: '' @ str_int (status_code r)))
      else parse_reservation E r sid)"

text \<open>The request \<open>create_reservation\<close> posts.\<close>

definition reserve_request :: "'st env \<Rightarrow> str \<Rightarrow> str \<Rightarrow> client \<Rightarrow> request" where
  "reserve_request E sid bike_type c =
     \<lparr>url = BASE_URL @ lit ''/v1/last-mile/stations/reserve/v2'',
      json_body = JObj [(lit ''station_id'', JStr sid),
                        (lit ''reservation_item_key'', JStr bike_type),
                        (lit ''is_apple_pay_authorization_needed'', JBool False)],
      headers = get_headers E c True\<rparr>"

definition create_reservation ::
  "'st env \<Rightarrow> str \<Rightarrow> str \<Rightarrow> client \<Rightarrow> (error + reservation) \<times> client" where
  "create_reservation E sid bike_type c =
     (if \<not> is_authenticated c
      then (Inl (AuthenticationError (lit ''Must be authenticated to create reservations'')), c)
      else
        (case post E (reserve_request E sid bike_type c) c of
           (Inl e, c') \<Rightarrow> (Inl e, c')
         | (Inr r, c') \<Rightarrow> (reservation_of_response E r sid, c')))"

definition cancel_of_response :: "response \<Rightarrow> error + unit" where
  "cancel_of_response r =
     (if status_code r = 403
      then Inl (AuthenticationError (lit ''Access denied - token may be expired''))
      else if status_code r \<noteq> 200
      then Inl (ReservationError (lit ''Failed to cancel reservation: '' @ str_int (status_code r)))
      else Inr ())"

text \<open>The request \<open>cancel_reservation\<close> posts.\<close>

definition cancel_request :: "'st env \<Rightarrow> str \<Rightarrow> client \<Rightarrow> request" where
  "cancel_request E rid c =
     \<lparr>url = BASE_URL @ lit ''/v1/last-mile/rides/cancel'',
      json_body = JObj [(lit ''ride_id'', JStr rid)],
      headers = get_headers E c True\<rparr>"

definition cancel_reservation :: "'st env \<Rightarrow> str \<Rightarrow> client \<Rightarrow> (error + unit) \<times> client" where
  "cancel_reservation E rid c =
     (if \<not> is_authenticated c
      then (Inl (AuthenticationError (lit ''Must be authenticated to cancel reservations'')), c)
      else
        (case post E (cancel_request E rid c) c of
           (Inl e, c') \<Rightarrow> (Inl e, c')
         | (Inr r, c') \<Rightarrow> (cancel_of_response r, c')))"

section \<open>Login\<close>

text \<open>
  Modelled from the spec: \<open>AuthManager.login\<close> (\<open>auth.py\<close>) is missing from the sources.
  The exchange of the code with the authentication endpoint either issues a token or fails;
  a failure says whether the server asks for email verification, and gives its cause.  On
  success the token is stored in memory and in the token file.  When the server asks for
  email verification and no email was supplied, the call fails with an
  \<open>AuthenticationError\<close> whose message holds the marker the caller looks for
  (\<open>scripts/test_client.py\<close> tests \<open>"Email verification required" in str(e)\<close>); any other
  failure is an \<open>AuthenticationError\<close> describing the cause.
\<close>

datatype exchange_result = Issued token_info | Failed bool str

definition email_marker :: str where
  "email_marker = lit ''Email verification required''"

definition auth_login ::
  "(str \<Rightarrow> str \<Rightarrow> str option \<Rightarrow> exchange_result) \<Rightarrow> str \<Rightarrow> str \<Rightarrow> str option \<Rightarrow> client
     \<Rightarrow> (error + token_info) \<times> client" where
  "auth_login exchange phone_number code email c =
     (case exchange phone_number code email of
        Issued ti \<Rightarrow>
          (Inr ti, c\<lparr>access_token := Some (ti_access_token ti), token_file := Some ti\<rparr>)
      | Failed email_needed cause \<Rightarrow>
          if email_needed \<and> email = None
          then (Inl (AuthenticationError email_marker), c)
          else (Inl (AuthenticationError cause), c))"

text \<open>\<open>BayWheelsClient.login\<close>: the token string of what the \<open>AuthManager\<close> returns.\<close>

definition login ::
  "(str \<Rightarrow> str \<Rightarrow> str option \<Rightarrow> exchange_result) \<Rightarrow> str \<Rightarrow> str \<Rightarrow> str option \<Rightarrow> client
     \<Rightarrow> (error + str) \<times> client" where
  "login exchange phone_number code email c =
     (case auth_login exchange phone_number code email c of
        (Inl e, c') \<Rightarrow> (Inl e, c')
      | (Inr token_info, c') \<Rightarrow> (Inr (ti_access_token token_info), c'))"

section \<open>Notions the properties are stated with\<close>

text \<open>
  The discriminator of a feature: what its properties hold under \<open>map_item_type\<close>
  (\<open>JNull\<close>, Python's \<open>None\<close>, when there are no properties or no such key).  There is none
  when the feature or its properties are not a dict; \<open>list_stations\<close> then raises
  \<open>AttributeError\<close>.  A station is a feature whose discriminator equals 1.
\<close>

definition discriminator :: "jvalue \<Rightarrow> jvalue option" where
  "discriminator feature =
     (case feature of
        JObj fd \<Rightarrow>
          (case dict_get fd (lit ''properties'') (JObj []) of
             JObj pd \<Rightarrow> Some (dict_get pd (lit ''map_item_type'') JNull)
           | _ \<Rightarrow> None)
      | _ \<Rightarrow> None)"

definition is_station :: "jvalue \<Rightarrow> bool" where
  "is_station feature = (case discriminator feature of Some t \<Rightarrow> py_eq_1 t | None \<Rightarrow> False)"

text \<open>
  A run of 15 to 20 digits delimited on both sides: \<open>text = pre @ m @ suf\<close>, every
  character of \<open>m\<close> is a digit, and neither the character before \<open>m\<close> nor the one after
  it is a word character (at either end of the text there is none).  \<open>delimited_after\<close> is
  the same for a text that follows the character \<open>before\<close>.
\<close>

definition context_before :: "nat option \<Rightarrow> str \<Rightarrow> nat option" where
  "context_before before pre = (if pre = [] then before else Some (last pre))"

definition delimited_after :: "'st env \<Rightarrow> nat option \<Rightarrow> str \<Rightarrow> str \<Rightarrow> str \<Rightarrow> bool" where
  "delimited_after E before pre m suf \<longleftrightarrow>
     15 \<le> length m \<and> length m \<le> 20 \<and> (\<forall>c\<in>set m. is_digit E c)
     \<and> \<not> word_at E (context_before before pre) \<and> \<not> word_at E (nth_opt suf 0)"

definition delimited_run :: "'st env \<Rightarrow> str \<Rightarrow> str \<Rightarrow> str \<Rightarrow> bool" where
  "delimited_run E pre m suf = delimited_after E None pre m suf"

text \<open>The first such run of a text: no other one starts further left.\<close>

definition first_delimited_run :: "'st env \<Rightarrow> str \<Rightarrow> str \<Rightarrow> str \<Rightarrow> str \<Rightarrow> bool" where
  "first_delimited_run E text pre m suf \<longleftrightarrow>
     text = pre @ m @ suf \<and> delimited_run E pre m suf
     \<and> (\<forall>pre' m' suf'. text = pre' @ m' @ suf' \<and> delimited_run E pre' m' suf'
           \<longrightarrow> length pre \<le> length pre')"

text \<open>
  The text contains a run of 15 to 20 consecutive digits: a stretch of digits of such a
  length with no digit next to it on either side.
\<close>

definition has_digit_run :: "'st env \<Rightarrow> str \<Rightarrow> bool" where
  "has_digit_run E text \<longleftrightarrow>
     (\<exists>pre m suf. text = pre @ m @ suf \<and> 15 \<le> length m \<and> length m \<le> 20
        \<and> (\<forall>c\<in>set m. is_digit E c)
        \<and> (pre = [] \<or> \<not> is_digit E (last pre)) \<and> (suf = [] \<or> \<not> is_digit E (hd suf)))"

section \<open>Sample data\<close>

text \<open>
  An environment whose transport answers every request with the response \<open>r\<close> and whose
  \<open>json.loads\<close> decodes exactly the strings of a table; stations are shown as the features
  they come from, and \<open>Reservation\<close> refuses a status that is not a string with a
  \<open>ValueError\<close>.
\<close>

definition fixed_env :: "response \<Rightarrow> (str \<times> jvalue) list \<Rightarrow> jvalue env" where
  "fixed_env r table =
     \<lparr>transport = (\<lambda>req. Inr r),
      common_headers = [(lit ''user-agent'', lit ''bay-wheels'')],
      json_loads = (\<lambda>s. case map_of table s of
                           Some v \<Rightarrow> Inr v
                         | None \<Rightarrow> Inl (JSONDecodeError (lit ''Expecting value''))),
      py_repr = (\<lambda>v. lit ''...''),
      from_geojson_feature = Inr,
      reservation_refused = (\<lambda>v. ValueError (lit ''status: Input should be a valid string'')),
      unicode_decimal = (\<lambda>c. 0x660 \<le> c \<and> c \<le> 0x669),
      unicode_alnum = (\<lambda>c. False)\<rparr>"

definition anonymous :: client where
  "anonymous = \<lparr>access_token = None, token_file = None, sent = []\<rparr>"

definition signed_in :: client where
  "signed_in = \<lparr>access_token = Some (lit ''token''), token_file = None, sent = []\<rparr>"

definition status_response :: "int \<Rightarrow> response" where
  "status_response n = \<lparr>status_code = n, content = [], json = Inl (JSONDecodeError (lit ''Expecting value''))\<rparr>"

definition json_response :: "bytes \<Rightarrow> jvalue \<Rightarrow> response" where
  "json_response raw v = \<lparr>status_code = 200, content = raw, json = Inr v\<rparr>"

text \<open>A collection of two stations and one bike, the text that encodes it, and its wrapper.\<close>

definition feature :: "string \<Rightarrow> int \<Rightarrow> jvalue" where
  "feature name t =
     JObj [(lit ''type'', JStr (lit ''Feature'')),
           (lit ''properties'',
              JObj [(lit ''id'', JStr (lit name)), (lit ''map_item_type'', JInt t)])]"

definition collection :: jvalue where
  "collection =
     JObj [(lit ''type'', JStr (lit ''FeatureCollection'')),
           (lit ''features'', JArr [feature ''a'' 1, feature ''bike'' 2, feature ''b'' 1])]"

definition collection_bytes :: bytes where
  \<open>collection_bytes =
     ''{"type": "FeatureCollection", "features": [''
     @ ''{"type": "Feature", "properties": {"id": "a", "map_item_type": 1}}, ''
     @ ''{"type": "Feature", "properties": {"id": "bike", "map_item_type": 2}}, ''
     @ ''{"type": "Feature", "properties": {"id": "b", "map_item_type": 1}}]}''\<close>

definition wrapper :: jvalue where
  "wrapper = JObj [(lit ''map_inventory_json'', JStr (lit collection_bytes))]"

text \<open>
  A collection without features that carries, as a member of its own, the text of the
  collection above; the text that encodes it (quotes and backslashes escaped inside the
  string), and its wrapper.
\<close>

definition tagged_collection :: jvalue where
  "tagged_collection =
     JObj [(lit ''type'', JStr (lit ''FeatureCollection'')),
           (lit ''features'', JArr []),
           (lit ''map_inventory_json'', JStr (lit collection_bytes))]"

definition json_escape :: "bytes \<Rightarrow> bytes" where
  "json_escape raw =
     concat (map (\<lambda>c. if c = CHR 0x22 \<or> c = CHR 0x5C then [CHR 0x5C, c] else [c]) raw)"

definition tagged_bytes :: bytes where
  \<open>tagged_bytes =
     ''{"type": "FeatureCollection", "features": [], "map_inventory_json": "''
     @ json_escape collection_bytes @ ''"}''\<close>

definition tagged_wrapper :: jvalue where
  "tagged_wrapper = JObj [(lit ''map_inventory_json'', JStr (lit tagged_bytes))]"

definition decoding_table :: "(str \<times> jvalue) list" where
  "decoding_table = [(lit collection_bytes, collection), (lit tagged_bytes, tagged_collection)]"

text \<open>
  A collection of one station and one feature whose properties are \<open>null\<close>, and a payload
  whose \<open>map_inventory_json\<close> field holds a number.
\<close>

definition null_properties_collection :: jvalue where
  "null_properties_collection =
     JObj [(lit ''type'', JStr (lit ''FeatureCollection'')),
           (lit ''features'',
              JArr [feature ''a'' 1,
                    JObj [(lit ''type'', JStr (lit ''Feature'')), (lit ''properties'', JNull)]])]"

definition null_properties_bytes :: bytes where
  \<open>null_properties_bytes =
     ''{"type": "FeatureCollection", "features": [''
     @ ''{"type": "Feature", "properties": {"id": "a", "map_item_type": 1}}, ''
     @ ''{"type": "Feature", "properties": null}]}''\<close>

definition number_wrapper :: jvalue where
  "number_wrapper = JObj [(lit ''map_inventory_json'', JInt 5)]"

text \<open>Reservation responses whose body is JSON.\<close>

definition reservation_response :: response where
  \<open>reservation_response =
     json_response ''{"ride_id": "123456789012345", "status": "reserved"}''
       (JObj [(lit ''ride_id'', JStr (lit ''123456789012345'')),
              (lit ''status'', JStr (lit ''reserved''))])\<close>

definition empty_id_response :: response where
  \<open>empty_id_response =
     json_response ''{"ride_id": ""}'' (JObj [(lit ''ride_id'', JStr [])])\<close>

definition numeric_status_response :: response where
  \<open>numeric_status_response =
     json_response ''{"ride_id": "77", "status": 5}''
       (JObj [(lit ''ride_id'', JStr (lit ''77'')), (lit ''status'', JInt 5)])\<close>

definition digits_only_response :: response where
  "digits_only_response = json_response ''123456789012345678'' (JInt 123456789012345678)"

definition other_id_response :: response where
  \<open>other_id_response =
     json_response ''{"id": "123456789012345678"}''
       (JObj [(lit ''id'', JStr (lit ''123456789012345678''))])\<close>

text \<open>A server that asks for an email address before it issues a token.\<close>

definition strict_server :: "str \<Rightarrow> str \<Rightarrow> str option \<Rightarrow> exchange_result" where
  "strict_server phone_number code email =
     (if code \<noteq> lit ''123456'' then Failed False (lit ''Invalid verification code'')
      else case email of
             None \<Rightarrow> Failed True (lit ''challenge_required: email_match'')
           | Some a \<Rightarrow> Issued \<lparr>ti_access_token = lit ''token-for-'' @ a, obtained_at = None\<rparr>)"

text \<open>Reservation responses whose body is not JSON.\<close>

definition failed_json :: "bytes \<Rightarrow> response" where
  "failed_json raw =
     \<lparr>status_code = 200, content = raw,
      json = Inl (JSONDecodeError (lit ''Expecting value: line 1 column 1 (char 0)''))\<rparr>"

definition binary_response :: response where
  "binary_response =
     failed_json ([CHR 0x12, CHR 0x16] @ ''ride=98765432109876543'' @ [CHR 0x18, CHR 0x01])"

definition underscore_response :: response where
  "underscore_response = failed_json ''ride_98765432109876543''"

definition html_response :: response where
  "html_response = failed_json ''<html>503 Service Unavailable</html>''"

section \<open>Properties\<close>

subsection \<open>String literals\<close>

lemma lit_eq_iff [simp]: "lit a = lit b \<longleftrightarrow> a = b"
  by (simp add: lit_def inj_map_eq_map inj_on_def)

lemma lit_eq_Nil_iff [simp]: "lit a = [] \<longleftrightarrow> a = []"
  by (simp add: lit_def)

lemma Nil_eq_lit_iff [simp]: "[] = lit a \<longleftrightarrow> a = []"
  by (simp add: lit_def)

lemma lit_append [simp]: "lit a @ lit b = lit (a @ b)"
  by (simp add: lit_def)

subsection \<open>The guard and the status codes\<close>

text \<open>
  Claim C1.  On a client that holds no access token, \<open>list_stations\<close>,
  \<open>create_reservation\<close> and \<open>cancel_reservation\<close> each raise \<open>AuthenticationError\<close>,
  and the client is returned as it was: nothing has been added to the requests it has sent.
\<close>

theorem guard_before_request:
  assumes "access_token c = None"
  shows "list_stations E c
           = (Inl (AuthenticationError (lit ''Must be authenticated to list stations'')), c)
       \<and> create_reservation E sid bike_type c
           = (Inl (AuthenticationError (lit ''Must be authenticated to create reservations'')), c)
       \<and> cancel_reservation E rid c
           = (Inl (AuthenticationError (lit ''Must be authenticated to cancel reservations'')), c)"
  using assms
  by (simp add: list_stations_def create_reservation_def cancel_reservation_def is_authenticated_def)

theorem guard_before_request_witness:
  "access_token anonymous = None
   \<and> list_stations (fixed_env (status_response 200) []) anonymous
       = (Inl (AuthenticationError (lit ''Must be authenticated to list stations'')), anonymous)
   \<and> sent (snd (create_reservation (fixed_env (status_response 200) []) (lit ''s1'') (lit ''ebike'') anonymous)) = []
   \<and> sent (snd (cancel_reservation (fixed_env (status_response 200) []) (lit ''123'') anonymous)) = []"
proof -
  have h: "access_token anonymous = None" by (simp add: anonymous_def)
  show ?thesis
    using guard_before_request [OF h, of "fixed_env (status_response 200) []" "lit ''s1''" "lit ''ebike''" "lit ''123''"] h
    by (simp add: anonymous_def)
qed

text \<open>An authenticated operation posts its request once and goes on with the answer.\<close>

lemma list_stations_answered:
  "is_authenticated c \<Longrightarrow> transport E (inventory_request E c) = Inr r \<Longrightarrow>
   list_stations E c = (stations_of_response E r, c\<lparr>sent := sent c @ [inventory_request E c]\<rparr>)"
  by (simp add: list_stations_def post_def)

lemma create_reservation_answered:
  "is_authenticated c \<Longrightarrow> transport E (reserve_request E sid bt c) = Inr r \<Longrightarrow>
   create_reservation E sid bt c
     = (reservation_of_response E r sid, c\<lparr>sent := sent c @ [reserve_request E sid bt c]\<rparr>)"
  by (simp add: create_reservation_def post_def)

lemma cancel_reservation_answered:
  "is_authenticated c \<Longrightarrow> transport E (cancel_request E rid c) = Inr r \<Longrightarrow>
   cancel_reservation E rid c
     = (cancel_of_response r, c\<lparr>sent := sent c @ [cancel_request E rid c]\<rparr>)"
  by (simp add: cancel_reservation_def post_def)

text \<open>
  Claim C2.  On an authenticated client, whatever response the transport gives to the
  request of an operation: status 403 makes the operation raise \<open>AuthenticationError\<close>,
  and any status other than 403 and 200 makes it raise its own error, \<open>BayWheelsError\<close>
  for \<open>list_stations\<close> and \<open>ReservationError\<close> for the two reservation calls, with the
  status code printed in the message.
\<close>

theorem status_translation:
  assumes "is_authenticated c"
  shows "(\<forall>r. transport E (inventory_request E c) = Inr r \<longrightarrow>
            (status_code r = 403 \<longrightarrow>
               fst (list_stations E c)
                 = Inl (AuthenticationError (lit ''Access denied - token may be expired'')))
          \<and> (status_code r \<noteq> 403 \<and> status_code r \<noteq> 200 \<longrightarrow>
               fst (list_stations E c)
                 = Inl (BayWheelsError (lit ''Failed to get stations: '' @ str_int (status_code r)))))
       \<and> (\<forall>r. transport E (reserve_request E sid bike_type c) = Inr r \<longrightarrow>
            (status_code r = 403 \<longrightarrow>
               fst (create_reservation E sid bike_type c)
                 = Inl (AuthenticationError (lit ''Access denied - token may be expired'')))
          \<and> (status_code r \<noteq> 403 \<and> status_code r \<noteq> 200 \<longrightarrow>
               fst (create_reservation E sid bike_type c)
                 = Inl (ReservationError
                     (lit ''Failed to create reservation: '' @ str_int (status_code r)))))
       \<and> (\<forall>r. transport E (cancel_request E rid c) = Inr r \<longrightarrow>
            (status_code r = 403 \<longrightarrow>
               fst (cancel_reservation E rid c)
                 = Inl (AuthenticationError (lit ''Access denied - token may be expired'')))
          \<and> (status_code r \<noteq> 403 \<and> status_code r \<noteq> 200 \<longrightarrow>
               fst (cancel_reservation E rid c)
                 = Inl (ReservationError
                     (lit ''Failed to cancel reservation: '' @ str_int (status_code r)))))"
proof (intro conjI allI impI)
  fix r assume "transport E (inventory_request E c) = Inr r" "status_code r = 403"
  then show "fst (list_stations E c)
                 = Inl (AuthenticationError (lit ''Access denied - token may be expired''))"
    using assms by (simp add: list_stations_answered stations_of_response_def)
next
  fix r assume "transport E (inventory_request E c) = Inr r" "status_code r \<noteq> 403 \<and> status_code r \<noteq> 200"
  then show "fst (list_stations E c)
                 = Inl (BayWheelsError (lit ''Failed to get stations: '' @ str_int (status_code r)))"
    using assms by (simp add: list_stations_answered stations_of_response_def)
next
  fix r assume "transport E (reserve_request E sid bike_type c) = Inr r" "status_code r = 403"
  then show "fst (create_reservation E sid bike_type c)
                 = Inl (AuthenticationError (lit ''Access denied - token may be expired''))"
    using assms by (simp add: create_reservation_answered reservation_of_response_def)
next
  fix r assume "transport E (reserve_request E sid bike_type c) = Inr r" "status_code r \<noteq> 403 \<and> status_code r \<noteq> 200"
  then show "fst (create_reservation E sid bike_type c)
                 = Inl (ReservationError
                     (lit ''Failed to create reservation: '' @ str_int (status_code r)))"
    using assms by (simp add: create_reservation_answered reservation_of_response_def)
next
  fix r assume "transport E (cancel_request E rid c) = Inr r" "status_code r = 403"
  then show "fst (cancel_reservation E rid c)
                 = Inl (AuthenticationError (lit ''Access denied - token may be expired''))"
    using assms by (simp add: cancel_reservation_answered cancel_of_response_def)
next
  fix r assume "transport E (cancel_request E rid c) = Inr r" "status_code r \<noteq> 403 \<and> status_code r \<noteq> 200"
  then show "fst (cancel_reservation E rid c)
                 = Inl (ReservationError
                     (lit ''Failed to cancel reservation: '' @ str_int (status_code r)))"
    using assms by (simp add: cancel_reservation_answered cancel_of_response_def)
qed

lemma str_int_500: "str_int 500 = lit ''500''"
  by (simp add: str_int_def str_nat.simps lit_def)

lemma str_int_404: "str_int 404 = lit ''404''"
  by (simp add: str_int_def str_nat.simps lit_def)

theorem status_translation_witness:
  "is_authenticated signed_in
   \<and> fst (list_stations (fixed_env (status_response 403) []) signed_in)
       = Inl (AuthenticationError (lit ''Access denied - token may be expired''))
   \<and> fst (create_reservation (fixed_env (status_response 403) []) (lit ''s1'') (lit ''ebike'') signed_in)
       = Inl (AuthenticationError (lit ''Access denied - token may be expired''))
   \<and> fst (cancel_reservation (fixed_env (status_response 403) []) (lit ''123'') signed_in)
       = Inl (AuthenticationError (lit ''Access denied - token may be expired''))
   \<and> fst (list_stations (fixed_env (status_response 500) []) signed_in)
       = Inl (BayWheelsError (lit ''Failed to get stations: 500''))
   \<and> fst (create_reservation (fixed_env (status_response 500) []) (lit ''s1'') (lit ''ebike'') signed_in)
       = Inl (ReservationError (lit ''Failed to create reservation: 500''))
   \<and> fst (cancel_reservation (fixed_env (status_response 404) []) (lit ''123'') signed_in)
       = Inl (ReservationError (lit ''Failed to cancel reservation: 404''))"
proof -
  have h: "is_authenticated signed_in" by (simp add: is_authenticated_def signed_in_def)
  have t: "\<And>n q. transport (fixed_env (status_response n) []) q = Inr (status_response n)"
    by (simp add: fixed_env_def)
  have s: "\<And>n. status_code (status_response n) = n" by (simp add: status_response_def)
  show ?thesis
    using h
      status_translation [OF h, of "fixed_env (status_response 403) []" "lit ''s1''" "lit ''ebike''" "lit ''123''"]
      status_translation [OF h, of "fixed_env (status_response 500) []" "lit ''s1''" "lit ''ebike''" "lit ''123''"]
      status_translation [OF h, of "fixed_env (status_response 404) []" "lit ''s1''" "lit ''ebike''" "lit ''123''"]
    by (simp add: t s str_int_500 [unfolded lit_def] str_int_404 [unfolded lit_def] lit_def)
qed

subsection \<open>Station inventory\<close>

lemma discriminatorD:
  assumes "discriminator f = Some t"
  obtains fd pd where "f = JObj fd"
    and "dict_get fd (lit ''properties'') (JObj []) = JObj pd"
    and "dict_get pd (lit ''map_item_type'') JNull = t"
  using assms by (auto simp: discriminator_def split: jvalue.splits)

lemma collect_stations_filter:
  assumes "\<forall>f\<in>set fs. discriminator f \<noteq> None"
    and "\<forall>f\<in>set fs. is_station f \<longrightarrow> from_geojson_feature E f = Inr (conv f)"
  shows "collect_stations E fs acc = Inr (acc @ map conv (filter is_station fs))"
  using assms
proof (induction fs arbitrary: acc)
  case Nil
  then show ?case by simp
next
  case (Cons f fs)
  from Cons.prems obtain t where t: "discriminator f = Some t" by auto
  then obtain fd pd where f: "f = JObj fd"
    and fd: "dict_get fd (lit ''properties'') (JObj []) = JObj pd"
    and pd: "dict_get pd (lit ''map_item_type'') JNull = t"
    by (rule discriminatorD)
  have rest: "\<And>acc. collect_stations E fs acc = Inr (acc @ map conv (filter is_station fs))"
    using Cons by simp
  show ?case
  proof (cases "py_eq_1 t")
    case True
    then have st: "is_station f" by (simp add: is_station_def t)
    with Cons.prems have "from_geojson_feature E f = Inr (conv f)" by simp
    then have "from_geojson_feature E (JObj fd) = Inr (conv f)" by (simp add: f)
    with True st show ?thesis
      by (simp add: f fd pd rest)
  next
    case False
    then have "\<not> is_station f" by (simp add: is_station_def t)
    with False show ?thesis
      by (simp add: f fd pd rest)
  qed
qed

lemma inventory_try_direct:
  "json r = Inr (JObj d) \<Longrightarrow> map_of d (lit ''map_inventory_json'') = None \<Longrightarrow>
   inventory_try E r = Inr (JObj d)"
  by (simp add: inventory_try_def)

lemma inventory_try_wrapped:
  "json r = Inr (JObj w) \<Longrightarrow> map_of w (lit ''map_inventory_json'') = Some (JStr s) \<Longrightarrow>
   inventory_try E r = json_loads E s"
  by (simp add: inventory_try_def py_json_loads_def)

text \<open>
  Claim C3, as amended.  Let the payload be a wrapper, an object whose
  \<open>map_inventory_json\<close> field holds a string that \<open>json.loads\<close> decodes to the collection
  \<open>JObj d\<close>, and let \<open>JObj d\<close> have no \<open>map_inventory_json\<close> member of its own.  Then
  parsing the wrapper and parsing \<open>JObj d\<close> directly give the same result, the same
  stations or the same error.
\<close>

theorem double_encoding_invariance:
  assumes "json r = Inr (JObj w)"
    and "map_of w (lit ''map_inventory_json'') = Some (JStr s)"
    and "json_loads E s = Inr (JObj d)"
    and "map_of d (lit ''map_inventory_json'') = None"
    and "json r' = Inr (JObj d)"
  shows "parse_stations E r = parse_stations E r'"
  using assms
  by (simp add: parse_stations_def decode_inventory_def inventory_try_direct inventory_try_wrapped)

text \<open>
  What \<open>list_stations\<close> does on a collection whose features are all dicts with
  properties that are absent or dicts: it returns, in order, the conversions of exactly
  the features whose discriminator equals 1, and leaves every other feature out.  \<open>conv\<close>
  is what \<open>Station.from_geojson_feature\<close> computes on the stations.
\<close>

lemma stations_of_well_formed_collection:
  assumes "decode_inventory E r = Inr (JObj d)"
    and "dict_get d (lit ''type'') JNull = JStr (lit ''FeatureCollection'')"
    and "dict_get d (lit ''features'') (JArr []) = JArr fs"
    and "\<forall>f\<in>set fs. discriminator f \<noteq> None"
    and "\<forall>f\<in>set fs. is_station f \<longrightarrow> from_geojson_feature E f = Inr (conv f)"
  shows "parse_stations E r = Inr (map conv (filter is_station fs))"
  using assms(1-3) collect_stations_filter [OF assms(4,5), of "[]"]
  by (simp add: parse_stations_def)

text \<open>
  The failures that \<open>list_stations\<close> does turn into \<open>BayWheelsError\<close>, on a response
  with status 200: \<open>response.json()\<close> raising \<open>JSONDecodeError\<close> or another \<open>ValueError\<close>;
  a string under \<open>map_inventory_json\<close> that fails to decode in that way; and a decoded
  dict whose \<open>type\<close> is not \<open>FeatureCollection\<close>.
\<close>

lemma caught_failures_wrapped:
  assumes "is_authenticated c"
    and "transport E (inventory_request E c) = Inr r"
    and "status_code r = 200"
  shows "(\<forall>e. json r = Inl e \<and> is_ValueError e \<longrightarrow>
            fst (list_stations E c)
              = Inl (BayWheelsError (lit ''Failed to parse station data: '' @ message e)))
       \<and> (\<forall>w s e. json r = Inr (JObj w) \<and> map_of w (lit ''map_inventory_json'') = Some (JStr s)
              \<and> json_loads E s = Inl e \<and> is_ValueError e \<longrightarrow>
            fst (list_stations E c)
              = Inl (BayWheelsError (lit ''Failed to parse station data: '' @ message e)))
       \<and> (\<forall>d. decode_inventory E r = Inr (JObj d)
              \<and> dict_get d (lit ''type'') JNull \<noteq> JStr (lit ''FeatureCollection'') \<longrightarrow>
            fst (list_stations E c)
              = Inl (BayWheelsError (lit ''Unexpected response format: ''
                       @ py_str (py_repr E) (dict_get d (lit ''type'') JNull))))"
proof -
  have run: "fst (list_stations E c) = parse_stations E r"
    using assms by (simp add: list_stations_answered stations_of_response_def)
  show ?thesis
    by (auto simp: run parse_stations_def decode_inventory_def inventory_try_def
          py_json_loads_def)
qed

lemma is_station_feature [simp]: "is_station (feature name t) \<longleftrightarrow> t = 1"
  by (simp add: is_station_def discriminator_def feature_def dict_get_def)

lemma discriminator_feature [simp]: "discriminator (feature name t) = Some (JInt t)"
  by (simp add: discriminator_def feature_def dict_get_def)

theorem double_encoding_invariance_witness:
  "json (json_response [] wrapper) = Inr (JObj [(lit ''map_inventory_json'', JStr (lit collection_bytes))])
   \<and> json_loads (fixed_env (json_response [] wrapper) [(lit collection_bytes, collection)])
        (lit collection_bytes) = Inr collection
   \<and> parse_stations (fixed_env (json_response [] wrapper) [(lit collection_bytes, collection)])
        (json_response [] wrapper)
     = parse_stations (fixed_env (json_response [] wrapper) [(lit collection_bytes, collection)])
        (json_response collection_bytes collection)
   \<and> parse_stations (fixed_env (json_response [] wrapper) [(lit collection_bytes, collection)])
        (json_response collection_bytes collection)
     = Inr [feature ''a'' 1, feature ''b'' 1]"
proof -
  let ?E = "fixed_env (json_response [] wrapper) [(lit collection_bytes, collection)]"
  let ?d = "[(lit ''type'', JStr (lit ''FeatureCollection'')),
             (lit ''features'', JArr [feature ''a'' 1, feature ''bike'' 2, feature ''b'' 1])]"
  have h1: "json (json_response [] wrapper)
              = Inr (JObj [(lit ''map_inventory_json'', JStr (lit collection_bytes))])"
    by (simp add: json_response_def wrapper_def)
  have h2: "map_of [(lit ''map_inventory_json'', JStr (lit collection_bytes))] (lit ''map_inventory_json'')
              = Some (JStr (lit collection_bytes))"
    by simp
  have h3: "json_loads ?E (lit collection_bytes) = Inr (JObj ?d)"
    by (simp add: fixed_env_def collection_def)
  have h4: "map_of ?d (lit ''map_inventory_json'') = None"
    by simp
  have h5: "json (json_response collection_bytes collection) = Inr (JObj ?d)"
    by (simp add: json_response_def collection_def)
  have direct: "parse_stations ?E (json_response collection_bytes collection)
                  = Inr [feature ''a'' 1, feature ''b'' 1]"
    by (simp add: parse_stations_def decode_inventory_def inventory_try_def json_response_def
          collection_def dict_get_def fixed_env_def feature_def)
  show ?thesis
    using double_encoding_invariance [OF h1 h2 h3 h4 h5] h1 h3 direct
    by (simp add: collection_def)
qed

lemma stations_of_well_formed_collection_example:
  "parse_stations (fixed_env (json_response collection_bytes collection) [])
     (json_response collection_bytes collection)
     = Inr [feature ''a'' 1, feature ''b'' 1]
   \<and> length (filter is_station [feature ''a'' 1, feature ''bike'' 2, feature ''b'' 1]) = 2"
proof -
  let ?E = "fixed_env (json_response collection_bytes collection) []"
  let ?r = "json_response collection_bytes collection"
  let ?d = "[(lit ''type'', JStr (lit ''FeatureCollection'')),
             (lit ''features'', JArr [feature ''a'' 1, feature ''bike'' 2, feature ''b'' 1])]"
  let ?fs = "[feature ''a'' 1, feature ''bike'' 2, feature ''b'' 1]"
  have h1: "decode_inventory ?E ?r = Inr (JObj ?d)"
    by (simp add: decode_inventory_def inventory_try_def json_response_def collection_def)
  have h2: "dict_get ?d (lit ''type'') JNull = JStr (lit ''FeatureCollection'')"
    by (simp add: dict_get_def)
  have h3: "dict_get ?d (lit ''features'') (JArr []) = JArr ?fs"
    by (simp add: dict_get_def)
  have h4: "\<forall>f\<in>set ?fs. discriminator f \<noteq> None"
    by simp
  have h5: "\<forall>f\<in>set ?fs. is_station f \<longrightarrow> from_geojson_feature ?E f = Inr ((\<lambda>f. f) f)"
    by (simp add: fixed_env_def)
  show ?thesis
    using stations_of_well_formed_collection [OF h1 h2 h3 h4 h5]
    by simp
qed

lemma caught_failures_wrapped_example:
  "fst (list_stations (fixed_env (status_response 200) []) signed_in)
     = Inl (BayWheelsError (lit ''Failed to parse station data: Expecting value''))
   \<and> fst (list_stations (fixed_env (json_response [] wrapper) []) signed_in)
     = Inl (BayWheelsError (lit ''Failed to parse station data: Expecting value''))
   \<and> fst (list_stations (fixed_env (json_response [] (feature ''a'' 1)) []) signed_in)
     = Inl (BayWheelsError (lit ''Unexpected response format: Feature''))"
proof -
  let ?E1 = "fixed_env (status_response 200) [] :: jvalue env"
  let ?E2 = "fixed_env (json_response [] wrapper) [] :: jvalue env"
  let ?E3 = "fixed_env (json_response [] (feature ''a'' 1)) [] :: jvalue env"
  have a: "is_authenticated signed_in" by (simp add: is_authenticated_def signed_in_def)
  have t1: "transport ?E1 (inventory_request ?E1 signed_in) = Inr (status_response 200)"
    and t2: "transport ?E2 (inventory_request ?E2 signed_in) = Inr (json_response [] wrapper)"
    and t3: "transport ?E3 (inventory_request ?E3 signed_in) = Inr (json_response [] (feature ''a'' 1))"
    by (simp_all add: fixed_env_def)
  have s1: "status_code (status_response 200) = 200" by (simp add: status_response_def)
  have s2: "\<And>raw v. status_code (json_response raw v) = 200" by (simp add: json_response_def)
  have j1: "json (status_response 200) = Inl (JSONDecodeError (lit ''Expecting value''))"
    by (simp add: status_response_def)
  have j2: "json (json_response [] wrapper)
              = Inr (JObj [(lit ''map_inventory_json'', JStr (lit collection_bytes))])"
    by (simp add: json_response_def wrapper_def)
  have l2: "json_loads ?E2 (lit collection_bytes) = Inl (JSONDecodeError (lit ''Expecting value''))"
    by (simp add: fixed_env_def)
  have d3: "decode_inventory ?E3 (json_response [] (feature ''a'' 1))
            = Inr (JObj [(lit ''type'', JStr (lit ''Feature'')),
                 (lit ''properties'',
                    JObj [(lit ''id'', JStr (lit ''a'')), (lit ''map_item_type'', JInt 1)])])"
    by (simp add: decode_inventory_def inventory_try_def json_response_def feature_def)
  have "fst (list_stations ?E1 signed_in)
     = Inl (BayWheelsError (lit ''Failed to parse station data: Expecting value''))"
    using caught_failures_wrapped [OF a t1 s1] j1 by simp
  moreover have "fst (list_stations ?E2 signed_in)
     = Inl (BayWheelsError (lit ''Failed to parse station data: Expecting value''))"
    using caught_failures_wrapped [OF a t2 s2] j2 l2 by simp
  moreover have "fst (list_stations ?E3 signed_in)
     = Inl (BayWheelsError (lit ''Unexpected response format: Feature''))"
    using caught_failures_wrapped [OF a t3 s2] d3 by (simp add: dict_get_def)
  ultimately show ?thesis by simp
qed

lemma tagged_bytes_differ [simp]: "collection_bytes \<noteq> tagged_bytes"
proof
  assume "collection_bytes = tagged_bytes"
  then have "collection_bytes ! 43 = tagged_bytes ! 43" by simp
  then show False
    by (simp add: collection_bytes_def tagged_bytes_def)
qed

lemma tagged_bytes_differ' [simp]: "tagged_bytes \<noteq> collection_bytes"
  using tagged_bytes_differ by (rule not_sym)

text \<open>
  Claim C3 as the specification states it, for every valid collection, fails on a
  collection that has a \<open>map_inventory_json\<close> member of its own: parsed from its wrapper it
  gives its own features, here none, and parsed directly it is taken for a wrapper and
  gives the two stations of the collection its member encodes.
\<close>

theorem own_member_counterexample:
  "json_loads (fixed_env (json_response [] tagged_wrapper) decoding_table) (lit tagged_bytes)
     = Inr tagged_collection
   \<and> dict_get [(lit ''type'', JStr (lit ''FeatureCollection'')), (lit ''features'', JArr []),
                (lit ''map_inventory_json'', JStr (lit collection_bytes))] (lit ''type'') JNull
       = JStr (lit ''FeatureCollection'')
   \<and> parse_stations (fixed_env (json_response [] tagged_wrapper) decoding_table)
        (json_response [] tagged_wrapper)
       = Inr []
   \<and> parse_stations (fixed_env (json_response [] tagged_wrapper) decoding_table)
        (json_response tagged_bytes tagged_collection)
       = Inr [feature ''a'' 1, feature ''b'' 1]"
proof -
  let ?E = "fixed_env (json_response [] tagged_wrapper) decoding_table :: jvalue env"
  have l1: "json_loads ?E (lit tagged_bytes) = Inr tagged_collection"
    and l2: "json_loads ?E (lit collection_bytes) = Inr collection"
    by (simp_all add: fixed_env_def decoding_table_def)
  have jw: "json (json_response [] tagged_wrapper)
              = Inr (JObj [(lit ''map_inventory_json'', JStr (lit tagged_bytes))])"
    and jd: "json (json_response tagged_bytes tagged_collection)
              = Inr (JObj [(lit ''type'', JStr (lit ''FeatureCollection'')),
                           (lit ''features'', JArr []),
                           (lit ''map_inventory_json'', JStr (lit collection_bytes))])"
    by (simp_all add: json_response_def tagged_wrapper_def tagged_collection_def)
  have w: "decode_inventory ?E (json_response [] tagged_wrapper) = Inr tagged_collection"
    using inventory_try_wrapped [OF jw, of "lit tagged_bytes" ?E] l1
    by (simp add: decode_inventory_def)
  have d: "decode_inventory ?E (json_response tagged_bytes tagged_collection) = Inr collection"
    using inventory_try_wrapped [OF jd, of "lit collection_bytes" ?E] l2
    by (simp add: decode_inventory_def)
  have "parse_stations ?E (json_response [] tagged_wrapper) = Inr []"
    by (simp add: parse_stations_def w) (simp add: tagged_collection_def dict_get_def)
  moreover have "parse_stations ?E (json_response tagged_bytes tagged_collection)
                   = Inr [feature ''a'' 1, feature ''b'' 1]"
    by (simp add: parse_stations_def d)
       (simp add: collection_def dict_get_def feature_def fixed_env_def)
  ultimately show ?thesis
    using l1 by (simp add: dict_get_def)
qed

text \<open>
  Claim C4 says that for every decoded collection the stations returned are exactly the
  features whose discriminator is 1, the others being left out.  On a collection with a
  station and a feature whose \<open>properties\<close> are \<open>null\<close> the code does not leave that
  feature out: \<open>props.get\<close> raises \<open>AttributeError\<close>, which \<open>list_stations\<close> lets
  through, and the station is not returned.
\<close>

theorem null_properties_failing_input:
  "is_station (feature ''a'' 1)
   \<and> fst (list_stations
            (fixed_env (json_response null_properties_bytes null_properties_collection) [])
            signed_in)
       = Inl (AttributeError
           (lit ([CHR 0x27] @ ''NoneType'' @ [CHR 0x27] @ '' object has no attribute ''
              @ [CHR 0x27] @ ''get'' @ [CHR 0x27])))"
proof -
  let ?r = "json_response null_properties_bytes null_properties_collection"
  let ?E = "fixed_env ?r [] :: jvalue env"
  have a: "is_authenticated signed_in" by (simp add: is_authenticated_def signed_in_def)
  have t: "transport ?E (inventory_request ?E signed_in) = Inr ?r"
    by (simp add: fixed_env_def)
  have d: "decode_inventory ?E ?r = Inr null_properties_collection"
    by (simp add: decode_inventory_def inventory_try_def json_response_def
          null_properties_collection_def)
  have "parse_stations ?E ?r
          = Inl (AttributeError
              (lit ([CHR 0x27] @ ''NoneType'' @ [CHR 0x27] @ '' object has no attribute ''
                 @ [CHR 0x27] @ ''get'' @ [CHR 0x27])))"
    by (simp add: parse_stations_def d)
       (simp add: null_properties_collection_def dict_get_def feature_def fixed_env_def
          no_attribute_get_def)
  then show ?thesis
    using list_stations_answered [OF a t]
    by (simp add: stations_of_response_def json_response_def)
qed

text \<open>
  Claim C5 says that a failing decoding step makes \<open>list_stations\<close> raise
  \<open>BayWheelsError\<close>.  On the payload \<open>{"map_inventory_json": 5}\<close> the decoding of the
  nested value fails with a \<open>TypeError\<close>, which the handler
  \<open>except (json.JSONDecodeError, ValueError)\<close> does not catch: \<open>list_stations\<close> raises the
  bare \<open>TypeError\<close>.
\<close>

theorem nested_number_failing_input:
  \<open>fst (list_stations (fixed_env (json_response ''{"map_inventory_json": 5}'' number_wrapper) [])
          signed_in)
     = Inl (TypeError (lit ''the JSON object must be str, bytes or bytearray, not int''))\<close>
proof -
  let ?r = \<open>json_response ''{"map_inventory_json": 5}'' number_wrapper\<close>
  let ?E = "fixed_env ?r [] :: jvalue env"
  have a: "is_authenticated signed_in" by (simp add: is_authenticated_def signed_in_def)
  have t: "transport ?E (inventory_request ?E signed_in) = Inr ?r"
    by (simp add: fixed_env_def)
  have "parse_stations ?E ?r
          = Inl (TypeError (lit ''the JSON object must be str, bytes or bytearray, not int''))"
    by (simp add: parse_stations_def decode_inventory_def inventory_try_def py_json_loads_def
          json_response_def number_wrapper_def)
  then show ?thesis
    using list_stations_answered [OF a t]
    by (simp add: stations_of_response_def json_response_def)
qed

subsection \<open>Reservations decoded from JSON\<close>

lemma create_reservation_200:
  "is_authenticated c \<Longrightarrow> transport E (reserve_request E sid bt c) = Inr r \<Longrightarrow>
   status_code r = 200 \<Longrightarrow> fst (create_reservation E sid bt c) = parse_reservation E r sid"
  by (simp add: create_reservation_answered reservation_of_response_def)

text \<open>
  Claim C7, as amended.  When the body decodes to a dict that has a \<open>ride_id\<close> field, the
  string form \<open>str(v)\<close> of its value is not empty, and the \<open>status\<close> field is absent or a
  string, \<open>create_reservation\<close> returns the reservation whose \<open>ride_id\<close> is that string
  form (the value itself when it is a string), whose \<open>status\<close> is the \<open>status\<close> field, or
  \<open>"reserved"\<close> when there is none, and whose \<open>station_id\<close> is the argument of the call.  The example that follows it is the body
  \<open>{"ride_id": "123456789012345", "status": "reserved"}\<close>.
\<close>

theorem json_reservation:
  assumes "is_authenticated c"
    and "transport E (reserve_request E sid bike_type c) = Inr r"
    and "status_code r = 200"
    and "json r = Inr (JObj d)"
    and "map_of d (lit ''ride_id'') = Some v"
    and "py_str (py_repr E) v \<noteq> []"
    and "dict_get d (lit ''status'') (JStr (lit ''reserved'')) = JStr st"
  shows "fst (create_reservation E sid bike_type c)
           = Inr \<lparr>ride_id = py_str (py_repr E) v, status = st, station_id = sid\<rparr>"
  using assms
  by (simp add: create_reservation_200 parse_reservation_def reservation_try_def
        reservation_fields_def make_reservation_def dict_get_def)

theorem json_reservation_witness:
  "fst (create_reservation (fixed_env reservation_response []) (lit ''station-1'') (lit ''ebike'') signed_in)
     = Inr \<lparr>ride_id = lit ''123456789012345'', status = lit ''reserved'',
            station_id = lit ''station-1''\<rparr>"
proof -
  let ?E = "fixed_env reservation_response [] :: jvalue env"
  let ?d = "[(lit ''ride_id'', JStr (lit ''123456789012345'')), (lit ''status'', JStr (lit ''reserved''))]"
  have a: "is_authenticated signed_in" by (simp add: is_authenticated_def signed_in_def)
  have t: "transport ?E (reserve_request ?E (lit ''station-1'') (lit ''ebike'') signed_in)
             = Inr reservation_response"
    by (simp add: fixed_env_def)
  have s: "status_code reservation_response = 200"
    by (simp add: reservation_response_def json_response_def)
  have j: "json reservation_response = Inr (JObj ?d)"
    by (simp add: reservation_response_def json_response_def)
  have m: "map_of ?d (lit ''ride_id'') = Some (JStr (lit ''123456789012345''))" by simp
  have n: "py_str (py_repr ?E) (JStr (lit ''123456789012345'')) \<noteq> []" by simp
  have u: "dict_get ?d (lit ''status'') (JStr (lit ''reserved'')) = JStr (lit ''reserved'')"
    by (simp add: dict_get_def)
  show ?thesis
    using json_reservation [OF a t s j m n u] by simp
qed

text \<open>
  Claim C7 as the specification states it, for every body that has a \<open>ride_id\<close> field,
  fails on \<open>{"ride_id": ""}\<close>, where the guard \<open>if not ride_id\<close> raises
  \<open>ReservationError\<close>, and on \<open>{"ride_id": "77", "status": 5}\<close>, where \<open>Reservation\<close>
  refuses the status and the handler raises \<open>ReservationError\<close>.
\<close>

theorem empty_ride_id_counterexample:
  "json empty_id_response = Inr (JObj [(lit ''ride_id'', JStr [])])
   \<and> fst (create_reservation (fixed_env empty_id_response []) (lit ''station-1'') (lit ''ebike'') signed_in)
       = Inl (ReservationError
           (lit ''Failed to parse reservation response: Could not parse reservation response''))
   \<and> json numeric_status_response
       = Inr (JObj [(lit ''ride_id'', JStr (lit ''77'')), (lit ''status'', JInt 5)])
   \<and> fst (create_reservation (fixed_env numeric_status_response []) (lit ''station-1'') (lit ''ebike'') signed_in)
       = Inl (ReservationError
           (lit ''Failed to parse reservation response: status: Input should be a valid string''))"
proof -
  let ?E = "fixed_env empty_id_response [] :: jvalue env"
  let ?F = "fixed_env numeric_status_response [] :: jvalue env"
  have a: "is_authenticated signed_in" by (simp add: is_authenticated_def signed_in_def)
  have t: "transport ?E (reserve_request ?E (lit ''station-1'') (lit ''ebike'') signed_in)
             = Inr empty_id_response"
    and t': "transport ?F (reserve_request ?F (lit ''station-1'') (lit ''ebike'') signed_in)
             = Inr numeric_status_response"
    by (simp_all add: fixed_env_def)
  have s: "status_code empty_id_response = 200" "status_code numeric_status_response = 200"
    by (simp_all add: empty_id_response_def numeric_status_response_def json_response_def)
  have j: "json empty_id_response = Inr (JObj [(lit ''ride_id'', JStr [])])"
    and j': "json numeric_status_response
               = Inr (JObj [(lit ''ride_id'', JStr (lit ''77'')), (lit ''status'', JInt 5)])"
    by (simp_all add: empty_id_response_def numeric_status_response_def json_response_def)
  have "parse_reservation ?E empty_id_response (lit ''station-1'')
          = Inl (ReservationError
              (lit ''Failed to parse reservation response: Could not parse reservation response''))"
    by (simp add: parse_reservation_def reservation_try_def reservation_fields_def j dict_get_def)
  moreover have "parse_reservation ?F numeric_status_response (lit ''station-1'')
          = Inl (ReservationError
              (lit ''Failed to parse reservation response: status: Input should be a valid string''))"
    by (simp add: parse_reservation_def reservation_try_def reservation_fields_def j' dict_get_def
          make_reservation_def)
       (simp add: fixed_env_def)
  ultimately show ?thesis
    using create_reservation_200 [OF a t s(1)] create_reservation_200 [OF a t' s(2)] j j'
    by simp
qed

text \<open>
  Claim C10.  On a response with status 200 whose body decodes to a dict where \<open>ride_id\<close>
  is absent or the empty string, \<open>create_reservation\<close> raises \<open>ReservationError\<close>, as
  it does when the body decodes to something that is not a dict; and whenever
  \<open>response.json()\<close> does not raise \<open>JSONDecodeError\<close> the result is the same for every
  raw body the response could carry: the scan for digits is not consulted.
  The example that follows it is a body whose text the pattern would match.
\<close>

theorem no_fallback_after_json:
  assumes "is_authenticated c"
    and "transport E (reserve_request E sid bike_type c) = Inr r"
    and "status_code r = 200"
  shows "(\<forall>d. json r = Inr (JObj d) \<and> dict_get d (lit ''ride_id'') (JStr []) = JStr [] \<longrightarrow>
            fst (create_reservation E sid bike_type c)
              = Inl (ReservationError
                  (lit ''Failed to parse reservation response: Could not parse reservation response'')))
       \<and> (\<forall>data. json r = Inr data \<and> (\<forall>d. data \<noteq> JObj d) \<longrightarrow>
            fst (create_reservation E sid bike_type c)
              = Inl (ReservationError
                  (lit ''Failed to parse reservation response: '' @ message (no_attribute_get data))))
       \<and> ((\<forall>e. json r = Inl e \<longrightarrow> \<not> is_JSONDecodeError e) \<longrightarrow>
            (\<forall>raw. parse_reservation E (r\<lparr>content := raw\<rparr>) sid
                     = fst (create_reservation E sid bike_type c)))"
proof -
  have run: "fst (create_reservation E sid bike_type c) = parse_reservation E r sid"
    using assms by (rule create_reservation_200)
  have empty: "parse_reservation E r sid
                 = Inl (ReservationError
                     (lit ''Failed to parse reservation response: Could not parse reservation response''))"
    if "json r = Inr (JObj d)" "dict_get d (lit ''ride_id'') (JStr []) = JStr []" for d
    using that by (simp add: parse_reservation_def reservation_try_def reservation_fields_def)
  have other: "parse_reservation E r sid
                 = Inl (ReservationError
                     (lit ''Failed to parse reservation response: '' @ message (no_attribute_get data)))"
    if "json r = Inr data" "\<forall>d. data \<noteq> JObj d" for data
    using that
    by (cases data) (simp_all add: parse_reservation_def reservation_try_def reservation_fields_def)
  have same: "parse_reservation E (r\<lparr>content := raw\<rparr>) sid = parse_reservation E r sid"
    if "\<forall>e. json r = Inl e \<longrightarrow> \<not> is_JSONDecodeError e" for raw
    using that
    by (cases "json r") (simp_all add: parse_reservation_def reservation_try_def reservation_fields_def)
  show ?thesis
    using empty other same by (simp add: run)
qed

theorem no_fallback_after_json_witness:
  "re_search (fixed_env other_id_response []) (decode_utf8_ignore (content other_id_response))
     = Some (lit ''123456789012345678'')
   \<and> fst (create_reservation (fixed_env other_id_response []) (lit ''station-1'') (lit ''ebike'') signed_in)
       = Inl (ReservationError
           (lit ''Failed to parse reservation response: Could not parse reservation response''))
   \<and> parse_reservation (fixed_env other_id_response []) (other_id_response\<lparr>content := ''123456789012345678''\<rparr>)
       (lit ''station-1'')
       = Inl (ReservationError
           (lit ''Failed to parse reservation response: Could not parse reservation response''))
   \<and> fst (create_reservation (fixed_env digits_only_response []) (lit ''station-1'') (lit ''ebike'') signed_in)
       = Inl (ReservationError
           (lit (''Failed to parse reservation response: '' @ [CHR 0x27] @ ''int'' @ [CHR 0x27]
              @ '' object has no attribute '' @ [CHR 0x27] @ ''get'' @ [CHR 0x27])))"
proof -
  let ?E = "fixed_env other_id_response [] :: jvalue env"
  let ?F = "fixed_env digits_only_response [] :: jvalue env"
  have a: "is_authenticated signed_in" by (simp add: is_authenticated_def signed_in_def)
  have t: "transport ?E (reserve_request ?E (lit ''station-1'') (lit ''ebike'') signed_in)
             = Inr other_id_response"
    by (simp add: fixed_env_def)
  have s: "status_code other_id_response = 200"
    by (simp add: other_id_response_def json_response_def)
  have j: "json other_id_response = Inr (JObj [(lit ''id'', JStr (lit ''123456789012345678''))])"
    by (simp add: other_id_response_def json_response_def)
  have g: "dict_get [(lit ''id'', JStr (lit ''123456789012345678''))] (lit ''ride_id'') (JStr []) = JStr []"
    by (simp add: dict_get_def)
  have scan: "re_search ?E (decode_utf8_ignore (content other_id_response))
     = Some (lit ''123456789012345678'')"
    unfolding other_id_response_def json_response_def fixed_env_def lit_def
    by code_simp
  have t': "transport ?F (reserve_request ?F (lit ''station-1'') (lit ''ebike'') signed_in)
             = Inr digits_only_response"
    by (simp add: fixed_env_def)
  have s': "status_code digits_only_response = 200"
    by (simp add: digits_only_response_def json_response_def)
  have j': "json digits_only_response = Inr (JInt 123456789012345678)"
    by (simp add: digits_only_response_def json_response_def)
  have "fst (create_reservation ?F (lit ''station-1'') (lit ''ebike'') signed_in)
       = Inl (ReservationError
           (lit (''Failed to parse reservation response: '' @ [CHR 0x27] @ ''int'' @ [CHR 0x27]
              @ '' object has no attribute '' @ [CHR 0x27] @ ''get'' @ [CHR 0x27])))"
    using no_fallback_after_json [OF a t' s'] j' by (simp add: no_attribute_get_def)
  then show ?thesis
    using no_fallback_after_json [OF a t s] j g scan by simp
qed

subsection \<open>The fallback scan of a reservation response\<close>

text \<open>
  Inside a stretch of digits there is no word boundary, so the greedy match either ends
  where the digits end or fails.
\<close>

lemma digit_is_word: "is_digit E c \<Longrightarrow> is_word E c"
  by (auto simp: is_digit_def is_word_def split: if_splits)

lemma word_at_digit: "is_digit E c \<Longrightarrow> word_at E (Some c)"
  by (simp add: word_at_def digit_is_word)

lemma backtrack_inside_digits:
  "\<forall>i\<le>n. i < length xs \<and> is_digit E (xs ! i) \<Longrightarrow> backtrack E xs n = None"
proof (induction n)
  case 0
  then show ?case by (simp add: backtrack.simps)
next
  case (Suc n)
  then have "is_digit E (xs ! n)" "is_digit E (xs ! Suc n)" "n < length xs" "Suc n < length xs"
    by auto
  then have "\<not> at_boundary E (nth_opt xs n) (nth_opt xs (Suc n))"
    by (simp add: at_boundary_def nth_opt_def word_at_digit)
  moreover have "backtrack E xs n = None" using Suc by simp
  ultimately show ?case
    by (subst backtrack.simps) simp
qed

lemma backtrack_at_end_of_digits:
  assumes "k \<le> length xs" and "\<forall>i<k. is_digit E (xs ! i)"
  shows "backtrack E xs k
           = (if 15 \<le> k \<and> \<not> word_at E (nth_opt xs k) then Some (take k xs) else None)"
proof (cases "15 \<le> k")
  case False
  then show ?thesis by (subst backtrack.simps) simp
next
  case True
  then obtain j where k: "k = Suc j" by (cases k) auto
  have "is_digit E (xs ! j)" "j < length xs" using assms k by auto
  then have b: "at_boundary E (nth_opt xs (k - 1)) (nth_opt xs k) \<longleftrightarrow> \<not> word_at E (nth_opt xs k)"
    by (simp add: at_boundary_def k nth_opt_def word_at_digit)
  have "backtrack E xs j = None"
    using assms k by (intro backtrack_inside_digits) auto
  with True b k show ?thesis
    by (subst backtrack.simps) auto
qed

lemma greedy_digits:
  defines "count \<equiv> \<lambda>E xs. length (takeWhile (is_digit E) (take 20 xs))"
  shows "count E xs \<le> 20" and "count E xs \<le> length xs"
    and "\<forall>i<count E xs. is_digit E (xs ! i)"
    and "take (count E xs) xs = takeWhile (is_digit E) (take 20 xs)"
proof -
  let ?t = "takeWhile (is_digit E) (take 20 xs)"
  have le: "length ?t \<le> length (take 20 xs)" by (rule length_takeWhile_le)
  then show a: "count E xs \<le> 20" and b: "count E xs \<le> length xs"
    by (simp_all add: count_def)
  have "?t = take (length ?t) (take 20 xs)" by (rule takeWhile_eq_take)
  also have "\<dots> = take (length ?t) xs" using a by (simp add: count_def min_def)
  finally show t: "take (count E xs) xs = ?t" by (simp add: count_def)
  show "\<forall>i<count E xs. is_digit E (xs ! i)"
  proof (intro allI impI)
    fix i assume i: "i < count E xs"
    then have "?t ! i \<in> set ?t" by (simp add: count_def)
    then have "is_digit E (?t ! i)" by (auto dest: set_takeWhileD)
    moreover have "?t ! i = xs ! i" using i t [symmetric] by simp
    ultimately show "is_digit E (xs ! i)" by simp
  qed
qed

lemma match_at_eq:
  "match_at E before xs
     = (let k = length (takeWhile (is_digit E) (take 20 xs))
        in if 15 \<le> k \<and> \<not> word_at E before \<and> \<not> word_at E (nth_opt xs k)
           then Some (take k xs) else None)"
proof -
  let ?k = "length (takeWhile (is_digit E) (take 20 xs))"
  have bt: "backtrack E xs ?k
              = (if 15 \<le> ?k \<and> \<not> word_at E (nth_opt xs ?k) then Some (take ?k xs) else None)"
    using greedy_digits(2,3) [of E xs] by (rule backtrack_at_end_of_digits)
  show ?thesis
  proof (cases "15 \<le> ?k")
    case False
    then show ?thesis by (simp add: match_at_def bt Let_def)
  next
    case True
    then have "0 < ?k" by linarith
    then have "is_digit E (xs ! 0)" "0 < length xs"
      using greedy_digits(2,3) [of E xs] by auto
    then have "at_boundary E before (nth_opt xs 0) \<longleftrightarrow> \<not> word_at E before"
      by (simp add: at_boundary_def nth_opt_def word_at_digit)
    then show ?thesis by (simp add: match_at_def bt Let_def)
  qed
qed

lemma greedy_digits_of_run:
  assumes "\<forall>c\<in>set m. is_digit E c" and "length m \<le> 20"
    and "\<not> word_at E (nth_opt suf 0)"
  shows "takeWhile (is_digit E) (take 20 (m @ suf)) = m"
proof -
  have "takeWhile (is_digit E) (take (20 - length m) suf) = []"
  proof (cases "take (20 - length m) suf")
    case Nil
    show ?thesis unfolding Nil by simp
  next
    case (Cons c cs)
    then have "suf \<noteq> []" "c = hd suf"
      by (cases suf; cases "20 - length m"; simp)+
    with assms(3) have "\<not> is_digit E c"
      by (cases suf) (auto simp: nth_opt_def word_at_def dest: digit_is_word)
    with Cons show ?thesis by simp
  qed
  with assms(1,2) show ?thesis by (simp add: takeWhile_append2)
qed

text \<open>A match at a position is a delimited run that starts there.\<close>

lemma match_at_Some_iff:
  "match_at E before xs = Some m \<longleftrightarrow>
     (\<exists>suf. xs = m @ suf \<and> delimited_after E before [] m suf)"
proof
  let ?k = "length (takeWhile (is_digit E) (take 20 xs))"
  assume "match_at E before xs = Some m"
  then have k: "15 \<le> ?k" "\<not> word_at E before" "\<not> word_at E (nth_opt xs ?k)" "m = take ?k xs"
    by (auto simp: match_at_eq Let_def split: if_splits)
  have len: "length m = ?k" using k(4) greedy_digits(2) [of E xs] by simp
  have "m = takeWhile (is_digit E) (take 20 xs)" using k(4) greedy_digits(4) [of E xs] by simp
  then have dig: "\<forall>c\<in>set m. is_digit E c" by (auto dest: set_takeWhileD)
  have "nth_opt (drop ?k xs) 0 = nth_opt xs ?k"
    by (simp add: nth_opt_def)
  with k len dig greedy_digits(1) [of E xs]
  have "xs = m @ drop ?k xs \<and> delimited_after E before [] m (drop ?k xs)"
    by (simp add: delimited_after_def context_before_def)
  then show "\<exists>suf. xs = m @ suf \<and> delimited_after E before [] m suf" ..
next
  assume "\<exists>suf. xs = m @ suf \<and> delimited_after E before [] m suf"
  then obtain suf where xs: "xs = m @ suf" and d: "delimited_after E before [] m suf" by blast
  from d have m: "15 \<le> length m" "length m \<le> 20" "\<forall>c\<in>set m. is_digit E c"
    "\<not> word_at E before" "\<not> word_at E (nth_opt suf 0)"
    by (simp_all add: delimited_after_def context_before_def)
  have t: "takeWhile (is_digit E) (take 20 xs) = m"
    unfolding xs using m(3,2,5) by (rule greedy_digits_of_run)
  have "nth_opt xs (length m) = nth_opt suf 0"
    by (simp add: xs nth_opt_def nth_append)
  with m show "match_at E before xs = Some m"
    by (simp add: match_at_eq t Let_def) (simp add: xs)
qed

lemma context_before_Cons: "context_before before (c # pre) = context_before (Some c) pre"
  by (simp add: context_before_def)

lemma delimited_after_Cons:
  "delimited_after E before (c # pre) m suf = delimited_after E (Some c) pre m suf"
  by (simp add: delimited_after_def context_before_Cons)

text \<open>The search returns a delimited run, and the first one.\<close>

lemma search_from_sound:
  "search_from E before xs = Some m \<Longrightarrow>
   \<exists>pre suf. xs = pre @ m @ suf \<and> delimited_after E before pre m suf"
proof (induction xs arbitrary: before)
  case Nil
  then obtain suf where "[] = m @ suf" "delimited_after E before [] m suf"
    by (auto simp: match_at_Some_iff)
  then show ?case by (simp add: delimited_after_def)
next
  case (Cons c cs)
  show ?case
  proof (cases "match_at E before (c # cs)")
    case (Some m')
    with Cons.prems have "match_at E before (c # cs) = Some m" by simp
    then obtain suf where "c # cs = [] @ m @ suf" "delimited_after E before [] m suf"
      by (auto simp: match_at_Some_iff)
    then show ?thesis by blast
  next
    case None
    with Cons.prems have "search_from E (Some c) cs = Some m" by simp
    then obtain pre suf where "cs = pre @ m @ suf" "delimited_after E (Some c) pre m suf"
      using Cons.IH by blast
    then have "c # cs = (c # pre) @ m @ suf \<and> delimited_after E before (c # pre) m suf"
      by (simp add: delimited_after_Cons)
    then show ?thesis by blast
  qed
qed

lemma search_from_first:
  assumes "xs = pre @ m @ suf" and "delimited_after E before pre m suf"
    and "\<forall>pre' m' suf'. xs = pre' @ m' @ suf' \<and> delimited_after E before pre' m' suf'
           \<longrightarrow> length pre \<le> length pre'"
  shows "search_from E before xs = Some m"
  using assms
proof (induction pre arbitrary: before xs)
  case Nil
  then have found: "match_at E before xs = Some m"
    by (auto simp: match_at_Some_iff)
  from Nil have "xs \<noteq> []" by (auto simp: delimited_after_def)
  then obtain c cs where "xs = c # cs" by (cases xs) auto
  with found show ?case by simp
next
  case (Cons p ps)
  let ?cs = "ps @ m @ suf"
  have xs: "xs = p # ?cs" using Cons.prems(1) by simp
  have "match_at E before xs = None"
  proof (rule ccontr)
    assume "match_at E before xs \<noteq> None"
    then obtain m' where "match_at E before xs = Some m'" by auto
    then obtain suf' where "xs = [] @ m' @ suf'" "delimited_after E before [] m' suf'"
      by (auto simp: match_at_Some_iff)
    with Cons.prems(3) have "length (p # ps) \<le> length ([] :: nat list)" by blast
    then show False by simp
  qed
  moreover have "search_from E (Some p) ?cs = Some m"
  proof (rule Cons.IH)
    show "?cs = ps @ m @ suf" by simp
    show "delimited_after E (Some p) ps m suf"
      using Cons.prems(2) by (simp add: delimited_after_Cons)
    show "\<forall>pre' m' suf'. ?cs = pre' @ m' @ suf' \<and> delimited_after E (Some p) pre' m' suf'
            \<longrightarrow> length ps \<le> length pre'"
    proof (intro allI impI)
      fix pre' m' suf'
      assume "?cs = pre' @ m' @ suf' \<and> delimited_after E (Some p) pre' m' suf'"
      then have "xs = (p # pre') @ m' @ suf' \<and> delimited_after E before (p # pre') m' suf'"
        by (simp add: xs delimited_after_Cons)
      with Cons.prems(3) have "length (p # ps) \<le> length (p # pre')" by blast
      then show "length ps \<le> length pre'" by simp
    qed
  qed
  ultimately show ?case by (simp add: xs)
qed

lemma re_search_first_delimited_run:
  "first_delimited_run E text pre m suf \<Longrightarrow> re_search E text = Some m"
  unfolding first_delimited_run_def delimited_run_def re_search_def
  by (rule search_from_first) auto

lemma re_search_sound:
  "re_search E text = Some m \<Longrightarrow> \<exists>pre suf. text = pre @ m @ suf \<and> delimited_run E pre m suf"
  unfolding re_search_def delimited_run_def by (rule search_from_sound)

lemma first_delimited_runI:
  assumes "text = pre @ m @ suf" and "delimited_run E pre m suf"
    and "\<forall>c\<in>set pre. \<not> is_digit E c"
  shows "first_delimited_run E text pre m suf"
  unfolding first_delimited_run_def
proof (intro conjI allI impI)
  fix pre' m' suf'
  assume other: "text = pre' @ m' @ suf' \<and> delimited_run E pre' m' suf'"
  show "length pre \<le> length pre'"
  proof (rule ccontr)
    assume "\<not> length pre \<le> length pre'"
    then have less: "length pre' < length pre" by simp
    from other have "m' \<noteq> []" "\<forall>c\<in>set m'. is_digit E c"
      by (auto simp: delimited_run_def delimited_after_def)
    then have "is_digit E (m' ! 0)" by (cases m') auto
    moreover have "text ! length pre' = m' ! 0"
      using other \<open>m' \<noteq> []\<close> by (simp add: nth_append)
    moreover have "text ! length pre' = pre ! length pre'"
      using assms(1) less by (simp add: nth_append)
    moreover have "pre ! length pre' \<in> set pre" using less by simp
    ultimately show False using assms(3) by auto
  qed
qed (use assms in auto)

lemma few_digits_no_run:
  assumes "length (filter (is_digit E) text) < 15"
  shows "\<not> has_digit_run E text"
proof
  assume "has_digit_run E text"
  then obtain pre m suf where "text = pre @ m @ suf" "15 \<le> length m" "\<forall>c\<in>set m. is_digit E c"
    by (auto simp: has_digit_run_def)
  then have "15 \<le> length (filter (is_digit E) text)" by simp
  with assms show False by simp
qed

lemma re_search_None:
  assumes "\<not> has_digit_run E text"
  shows "re_search E text = None"
proof (rule ccontr)
  assume "re_search E text \<noteq> None"
  then obtain m where "re_search E text = Some m" by auto
  then obtain pre suf where t: "text = pre @ m @ suf" and d: "delimited_run E pre m suf"
    by (blast dest: re_search_sound)
  from d have "pre = [] \<or> \<not> is_digit E (last pre)"
    by (auto simp: delimited_run_def delimited_after_def context_before_def word_at_def
          dest: digit_is_word)
  moreover from d have "suf = [] \<or> \<not> is_digit E (hd suf)"
    by (cases suf) (auto simp: delimited_run_def delimited_after_def nth_opt_def word_at_def
          dest: digit_is_word)
  ultimately have "has_digit_run E text"
    using t d unfolding has_digit_run_def delimited_run_def delimited_after_def by blast
  with assms show False by simp
qed

text \<open>
  Claim C6, as amended.  When \<open>response.json()\<close> raises \<open>JSONDecodeError\<close>, the body is
  decoded leniently and \<open>create_reservation\<close> returns the reservation whose \<open>ride_id\<close> is
  the first run of 15 to 20 digits that is delimited by word boundaries, with status
  \<open>"reserved"\<close> and the station of the call.  The example that follows it is a body
  around \<open>ride=98765432109876543\<close>.
\<close>

theorem fallback_takes_first_delimited_run:
  assumes "is_authenticated c"
    and "transport E (reserve_request E sid bike_type c) = Inr r"
    and "status_code r = 200"
    and "json r = Inl e" and "is_JSONDecodeError e"
    and "first_delimited_run E (decode_utf8_ignore (content r)) pre m suf"
  shows "fst (create_reservation E sid bike_type c)
           = Inr \<lparr>ride_id = m, status = lit ''reserved'', station_id = sid\<rparr>"
proof -
  have "re_search E (decode_utf8_ignore (content r)) = Some m"
    using assms(6) by (rule re_search_first_delimited_run)
  moreover have "m \<noteq> []"
    using assms(6) by (auto simp: first_delimited_run_def delimited_run_def delimited_after_def)
  ultimately show ?thesis
    using assms(1-5)
    by (simp add: create_reservation_200 parse_reservation_def reservation_try_def
          reservation_fields_def make_reservation_def)
qed

text \<open>
  Claim C8.  On a response with status 200 that is not JSON holding a \<open>ride_id\<close> field
  and whose leniently decoded text contains no run of 15 to 20 consecutive digits,
  \<open>create_reservation\<close> raises \<open>ReservationError\<close> with a message that starts
  \<open>Failed to parse reservation response\<close>.
\<close>

theorem unparsed_reservation_rejected:
  assumes "is_authenticated c"
    and "transport E (reserve_request E sid bike_type c) = Inr r"
    and "status_code r = 200"
    and "\<not> (\<exists>d. json r = Inr (JObj d) \<and> map_of d (lit ''ride_id'') \<noteq> None)"
    and "\<not> has_digit_run E (decode_utf8_ignore (content r))"
  shows "\<exists>m. fst (create_reservation E sid bike_type c)
               = Inl (ReservationError (lit ''Failed to parse reservation response: '' @ m))"
proof -
  have run: "fst (create_reservation E sid bike_type c) = parse_reservation E r sid"
    using assms(1-3) by (rule create_reservation_200)
  have scan: "re_search E (decode_utf8_ignore (content r)) = None"
    using assms(5) by (rule re_search_None)
  have "\<exists>e. reservation_try E r sid = Inl e"
  proof (cases "json r")
    case (Inl e)
    then show ?thesis
      by (simp add: reservation_try_def reservation_fields_def scan)
  next
    case (Inr data)
    show ?thesis
    proof (cases data)
      case (JObj d)
      with Inr assms(4) have "map_of d (lit ''ride_id'') = None" by simp
      with Inr JObj show ?thesis
        by (simp add: reservation_try_def reservation_fields_def dict_get_def)
    qed (use Inr in \<open>simp_all add: reservation_try_def reservation_fields_def\<close>)
  qed
  then show ?thesis
    by (auto simp: run parse_reservation_def)
qed

text \<open>
  The lenient decoding is total; it keeps ASCII as it is and drops a byte that can
  neither start nor continue a UTF-8 sequence.
\<close>

lemma utf8_ignore_ascii: "\<forall>b\<in>set bs. b < 128 \<Longrightarrow> utf8_ignore bs = bs"
  by (induction bs) simp_all

lemma utf8_ignore_drops_stray_byte:
  assumes "128 \<le> b" and "b < 194 \<or> 244 < b"
  shows "utf8_ignore (b # bs) = utf8_ignore bs"
proof (cases "b < 194")
  case True
  with assms(1) have "\<not> b < 128" "\<not> 194 \<le> b" "\<not> 224 \<le> b" "\<not> 240 \<le> b" by simp_all
  then show ?thesis by simp
next
  case False
  with assms have "\<not> b < 128" "\<not> b \<le> 223" "\<not> b \<le> 239" "\<not> b \<le> 244" by simp_all
  then show ?thesis by simp
qed

lemma decode_utf8_ignore_example:
  "decode_utf8_ignore [CHR 0xFF, CHR ''a'', CHR 0xE2, CHR 0x82, CHR 0xAC, CHR 0xE2, CHR 0x82,
                       CHR ''b'', CHR 0xC0, CHR 0x80, CHR 0xF0, CHR 0x9F, CHR 0x98, CHR 0x80]
     = [97, 8364, 98, 128512]"
  by (simp add: decode_utf8_ignore_def is_cont_def second_of_3_def second_of_4_def)

theorem fallback_takes_first_delimited_run_witness:
  "decode_utf8_ignore (content binary_response)
     = ([18, 22] @ lit ''ride='') @ lit ''98765432109876543'' @ [24, 1]
   \<and> fst (create_reservation (fixed_env binary_response []) (lit ''station-1'') (lit ''ebike'') signed_in)
       = Inr \<lparr>ride_id = lit ''98765432109876543'', status = lit ''reserved'',
              station_id = lit ''station-1''\<rparr>"
proof -
  let ?E = "fixed_env binary_response [] :: jvalue env"
  have a: "is_authenticated signed_in" by (simp add: is_authenticated_def signed_in_def)
  have t: "transport ?E (reserve_request ?E (lit ''station-1'') (lit ''ebike'') signed_in)
             = Inr binary_response"
    by (simp add: fixed_env_def)
  have s: "status_code binary_response = 200"
    by (simp add: binary_response_def failed_json_def)
  have j: "json binary_response
             = Inl (JSONDecodeError (lit ''Expecting value: line 1 column 1 (char 0)''))"
    by (simp add: binary_response_def failed_json_def)
  have k: "is_JSONDecodeError (JSONDecodeError (lit ''Expecting value: line 1 column 1 (char 0)''))"
    by simp
  have dec: "decode_utf8_ignore (content binary_response)
                = ([18, 22] @ lit ''ride='') @ lit ''98765432109876543'' @ [24, 1]"
    unfolding binary_response_def failed_json_def lit_def by code_simp
  have d: "delimited_run ?E ([18, 22] @ lit ''ride='') (lit ''98765432109876543'') [24, 1]"
    by (simp add: delimited_run_def delimited_after_def context_before_def word_at_def
          nth_opt_def is_digit_def is_word_def lit_def)
  have n: "\<forall>c\<in>set ([18, 22] @ lit ''ride=''). \<not> is_digit ?E c"
    by (simp add: is_digit_def lit_def)
  have f: "first_delimited_run ?E (decode_utf8_ignore (content binary_response))
             ([18, 22] @ lit ''ride='') (lit ''98765432109876543'') [24, 1]"
    using dec d n by (rule first_delimited_runI)
  show ?thesis
    using fallback_takes_first_delimited_run [OF a t s j k f] dec by simp
qed

text \<open>
  Claim C6 as the specification states it, that the first run of 15 to 20 consecutive
  digits is taken, fails on the body \<open>ride_98765432109876543\<close>: the underscore before the
  digits is a word character, the pattern finds no match, and the call raises
  \<open>ReservationError\<close>.
\<close>

theorem word_character_before_digits_counterexample:
  "json underscore_response
     = Inl (JSONDecodeError (lit ''Expecting value: line 1 column 1 (char 0)''))
   \<and> decode_utf8_ignore (content underscore_response) = lit ''ride_'' @ lit ''98765432109876543''
   \<and> fst (create_reservation (fixed_env underscore_response []) (lit ''station-1'') (lit ''ebike'') signed_in)
       = Inl (ReservationError
           (lit ''Failed to parse reservation response: Could not parse reservation response''))"
proof -
  let ?E = "fixed_env underscore_response [] :: jvalue env"
  have a: "is_authenticated signed_in" by (simp add: is_authenticated_def signed_in_def)
  have t: "transport ?E (reserve_request ?E (lit ''station-1'') (lit ''ebike'') signed_in)
             = Inr underscore_response"
    by (simp add: fixed_env_def)
  have s: "status_code underscore_response = 200"
    by (simp add: underscore_response_def failed_json_def)
  have j: "json underscore_response
             = Inl (JSONDecodeError (lit ''Expecting value: line 1 column 1 (char 0)''))"
    by (simp add: underscore_response_def failed_json_def)
  have dec: "decode_utf8_ignore (content underscore_response) = lit ''ride_98765432109876543''"
    unfolding underscore_response_def failed_json_def lit_def by code_simp
  have scan: "re_search ?E (lit ''ride_98765432109876543'') = None"
    unfolding underscore_response_def failed_json_def fixed_env_def lit_def
    by code_simp
  have "reservation_fields ?E underscore_response = Inr (None, JStr (lit ''reserved''))"
    by (simp add: reservation_fields_def j dec scan)
  then have "parse_reservation ?E underscore_response (lit ''station-1'')
               = Inl (ReservationError
                   (lit ''Failed to parse reservation response: Could not parse reservation response''))"
    by (simp add: parse_reservation_def reservation_try_def)
  then show ?thesis
    using create_reservation_200 [OF a t s] j dec by simp
qed

theorem unparsed_reservation_rejected_witness:
  "\<not> has_digit_run (fixed_env html_response []) (decode_utf8_ignore (content html_response))
   \<and> (\<exists>m. fst (create_reservation (fixed_env html_response []) (lit ''station-1'') (lit ''ebike'') signed_in)
           = Inl (ReservationError (lit ''Failed to parse reservation response: '' @ m)))"
proof -
  let ?E = "fixed_env html_response [] :: jvalue env"
  have a: "is_authenticated signed_in" by (simp add: is_authenticated_def signed_in_def)
  have t: "transport ?E (reserve_request ?E (lit ''station-1'') (lit ''ebike'') signed_in)
             = Inr html_response"
    by (simp add: fixed_env_def)
  have s: "status_code html_response = 200"
    by (simp add: html_response_def failed_json_def)
  have j: "\<not> (\<exists>d. json html_response = Inr (JObj d) \<and> map_of d (lit ''ride_id'') \<noteq> None)"
    by (simp add: html_response_def failed_json_def)
  have "length (filter (is_digit ?E) (decode_utf8_ignore (content html_response))) < 15"
    unfolding html_response_def failed_json_def fixed_env_def by code_simp
  then have n: "\<not> has_digit_run ?E (decode_utf8_ignore (content html_response))"
    by (rule few_digits_no_run)
  show ?thesis
    using unparsed_reservation_rejected [OF a t s j n] n by simp
qed

subsection \<open>Login\<close>

lemma str_contains_self: "str_contains s s"
  by (cases s) simp_all

text \<open>
  Claim C9.  When the exchange without an email address fails with the server's request
  for email verification, \<open>login\<close> raises \<open>AuthenticationError\<close> with a message that
  contains the marker \<open>Email verification required\<close>, and leaves the client as it was;
  a following call with the same phone number and code and an email address, which the
  server answers with a token, returns the token string and stores the token.
\<close>

theorem email_escalation:
  assumes "exchange phone_number code None = Failed True cause"
  shows "login exchange phone_number code None c = (Inl (AuthenticationError email_marker), c)
       \<and> str_contains (lit ''Email verification required'') (message (AuthenticationError email_marker))
       \<and> (\<forall>email ti. exchange phone_number code (Some email) = Issued ti \<longrightarrow>
            login exchange phone_number code (Some email) c
              = (Inr (ti_access_token ti),
                 c\<lparr>access_token := Some (ti_access_token ti), token_file := Some ti\<rparr>))"
  using assms
  by (simp add: login_def auth_login_def email_marker_def str_contains_self)

theorem email_escalation_witness:
  "login strict_server (lit ''+14155551234'') (lit ''123456'') None anonymous
     = (Inl (AuthenticationError email_marker), anonymous)
   \<and> login strict_server (lit ''+14155551234'') (lit ''123456'') (Some (lit ''a@b.c'')) anonymous
     = (Inr (lit ''token-for-a@b.c''),
        anonymous\<lparr>access_token := Some (lit ''token-for-a@b.c''),
                  token_file := Some \<lparr>ti_access_token = lit ''token-for-a@b.c'', obtained_at = None\<rparr>\<rparr>)"
proof -
  have h: "strict_server (lit ''+14155551234'') (lit ''123456'') None
             = Failed True (lit ''challenge_required: email_match'')"
    by (simp add: strict_server_def)
  have i: "strict_server (lit ''+14155551234'') (lit ''123456'') (Some (lit ''a@b.c''))
             = Issued \<lparr>ti_access_token = lit ''token-for-a@b.c'', obtained_at = None\<rparr>"
    by (simp add: strict_server_def)
  show ?thesis
    using email_escalation [where exchange = strict_server and phone_number = "lit ''+14155551234''"
        and code = "lit ''123456''" and c = anonymous, OF h] i
    by auto
qed

end
